theory Spec2Isabelle
  imports Complex_Main "HOL-Library.AList" "HOL-Library.List_Lexorder" "HOL-Library.Char_ord"
begin

section \<open>Python values used by the meeting server\<close>

text \<open>
  The server (\<^verbatim>\<open>src/server.py\<close>) works on dictionaries loaded from a JSON fixture and on
  \<^verbatim>\<open>datetime\<close> objects. Exceptions are values of \<open>py_exn\<close>; a computation that may
  raise returns \<open>py_exn + 'a\<close> with \<open>Inl\<close> for the exception.
\<close>

datatype py_exn =
    ValueError
  | TypeError
  | KeyError
  | IndexError
  | ZeroDivisionError
  | OverflowError
  | HTTPException int

definition ebind :: "py_exn + 'a \<Rightarrow> ('a \<Rightarrow> py_exn + 'b) \<Rightarrow> py_exn + 'b" where
  "ebind r f = (case r of Inl e \<Rightarrow> Inl e | Inr x \<Rightarrow> f x)"

text \<open>\<^verbatim>\<open>d[key]\<close> on a dictionary: a field that is absent raises \<^verbatim>\<open>KeyError\<close>.\<close>

definition getitem :: "'a option \<Rightarrow> py_exn + 'a" where
  "getitem field = (case field of None \<Rightarrow> Inl KeyError | Some v \<Rightarrow> Inr v)"


subsection \<open>datetime and timedelta\<close>

text \<open>
  A \<^verbatim>\<open>datetime\<close> is its wall-clock reading in microseconds (counted from day 0 of the
  proleptic Gregorian ordinal, so that \<open>wall div 86400000000\<close> is \<^verbatim>\<open>date.toordinal()\<close>) and
  its \<^verbatim>\<open>tzinfo\<close>: \<open>None\<close> for a naive datetime, \<open>Some off\<close> for an aware one with the fixed
  UTC offset \<open>off\<close> in microseconds. A \<^verbatim>\<open>timedelta\<close> is a number of microseconds. Floats
  are exact reals.
\<close>

record datetime =
  wall :: int
  tzinfo :: "int option"

type_synonym timedelta = int

definition timedelta_of :: "int \<Rightarrow> int \<Rightarrow> int \<Rightarrow> timedelta" where
  "timedelta_of days hours minutes = ((days * 24 + hours) * 60 + minutes) * 60000000"

text \<open>
  A \<^verbatim>\<open>timedelta\<close> holds between -999999999 and 999999999 whole days; the constructor raises
  \<^verbatim>\<open>OverflowError\<close> outside. \<open>timedelta_minutes n\<close> is \<^verbatim>\<open>timedelta(minutes=n)\<close>.
\<close>

definition timedelta_ok :: "timedelta \<Rightarrow> bool" where
  "timedelta_ok td =
     (- 999999999 \<le> td div 86400000000 \<and> td div 86400000000 \<le> 999999999)"

definition timedelta_minutes :: "int \<Rightarrow> py_exn + timedelta" where
  "timedelta_minutes n =
     (if timedelta_ok (n * 60000000) then Inr (n * 60000000) else Inl OverflowError)"

text \<open>
  A \<^verbatim>\<open>datetime\<close> lies between 0001-01-01 00:00:00 (ordinal 1) and 9999-12-31 23:59:59.999999
  (ordinal 3652059). \<^verbatim>\<open>d + td\<close> keeps the \<^verbatim>\<open>tzinfo\<close>, moves the wall clock and raises
  \<^verbatim>\<open>OverflowError\<close> when the result leaves that range.
\<close>

definition min_wall :: int where
  "min_wall = 86400000000"

definition max_wall :: int where
  "max_wall = 3652060 * 86400000000 - 1"

definition shift :: "datetime \<Rightarrow> timedelta \<Rightarrow> datetime" where
  "shift d td = d\<lparr>wall := wall d + td\<rparr>"

definition dt_add :: "datetime \<Rightarrow> timedelta \<Rightarrow> py_exn + datetime" where
  "dt_add d td =
     (if min_wall \<le> wall d + td \<and> wall d + td \<le> max_wall then Inr (shift d td)
      else Inl OverflowError)"

definition utc_us :: "datetime \<Rightarrow> int" where
  "utc_us d = wall d - (case tzinfo d of None \<Rightarrow> 0 | Some off \<Rightarrow> off)"

text \<open>
  Comparing or subtracting two datetimes asks each for its UTC offset: an offset that is not
  strictly between -24 hours and 24 hours raises \<^verbatim>\<open>ValueError\<close>, and a naive datetime
  against an aware one raises \<^verbatim>\<open>TypeError\<close>.
\<close>

definition offset_ok :: "datetime \<Rightarrow> bool" where
  "offset_ok d =
     (case tzinfo d of None \<Rightarrow> True | Some off \<Rightarrow> - 86400000000 < off \<and> off < 86400000000)"

definition comparable :: "datetime \<Rightarrow> datetime \<Rightarrow> bool" where
  "comparable a b = ((tzinfo a = None) = (tzinfo b = None))"

definition dt_lt :: "datetime \<Rightarrow> datetime \<Rightarrow> py_exn + bool" where
  "dt_lt a b =
     (if \<not> (offset_ok a \<and> offset_ok b) then Inl ValueError
      else if comparable a b then Inr (utc_us a < utc_us b) else Inl TypeError)"


definition dt_sub :: "datetime \<Rightarrow> datetime \<Rightarrow> py_exn + timedelta" where
  "dt_sub a b =
     (if \<not> (offset_ok a \<and> offset_ok b) then Inl ValueError
      else if comparable a b then Inr (utc_us a - utc_us b) else Inl TypeError)"

definition total_seconds :: "timedelta \<Rightarrow> real" where
  "total_seconds td = real_of_int td / 1000000"

definition hour :: "datetime \<Rightarrow> int" where
  "hour d = (wall d div 3600000000) mod 24"

definition date_of :: "datetime \<Rightarrow> int" where
  "date_of d = wall d div 86400000000"

text \<open>\<^verbatim>\<open>a and b\<close>: \<open>b\<close> is evaluated only when \<open>a\<close> is true.\<close>

definition py_and :: "py_exn + bool \<Rightarrow> py_exn + bool \<Rightarrow> py_exn + bool" where
  "py_and a b = ebind a (\<lambda>x. if x then b else Inr False)"

definition py_or :: "py_exn + bool \<Rightarrow> py_exn + bool \<Rightarrow> py_exn + bool" where
  "py_or a b = ebind a (\<lambda>x. if x then Inr True else b)"

text \<open>Calendar dates, for writing fixtures: the ordinal of a year, month and day.\<close>

definition is_leap :: "int \<Rightarrow> bool" where
  "is_leap y = (if y mod 4 = 0 then (if y mod 100 = 0 then y mod 400 = 0 else True) else False)"

definition days_before_year :: "int \<Rightarrow> int" where
  "days_before_year year = (let y = year - 1 in y * 365 + y div 4 - y div 100 + y div 400)"

definition days_before_month :: "int \<Rightarrow> int \<Rightarrow> int" where
  "days_before_month year month =
     [0, 31, 59, 90, 120, 151, 181, 212, 243, 273, 304, 334] ! nat (month - 1)
       + (if month > 2 \<and> is_leap year then 1 else 0)"

definition ymd2ord :: "int \<Rightarrow> int \<Rightarrow> int \<Rightarrow> int" where
  "ymd2ord year month day = days_before_year year + days_before_month year month + day"

definition mk_datetime :: "int \<Rightarrow> int \<Rightarrow> int \<Rightarrow> int \<Rightarrow> int \<Rightarrow> int option \<Rightarrow> datetime" where
  "mk_datetime year month day hh mm tz =
     \<lparr>wall = timedelta_of (ymd2ord year month day) hh mm, tzinfo = tz\<rparr>"

subsection \<open>The library and the clock\<close>

text \<open>
  The parsers and printers of the standard library and of \<^verbatim>\<open>dateutil\<close> are not part of the
  repository: they are parameters. \<open>clock E n\<close> is the UTC instant the system clock shows at
  its \<open>n\<close>-th reading from now on (\<open>clock E 0\<close> at the next one), \<open>local_offset\<close> the UTC offset
  of the machine's local time. \<open>later E k\<close> is the environment after \<open>k\<close> readings.
\<close>

record env =
  fromisoformat :: "string \<Rightarrow> py_exn + datetime"
  dateutil_parse :: "string \<Rightarrow> py_exn + datetime"
  isoformat :: "datetime \<Rightarrow> string"
  date_isoformat :: "int \<Rightarrow> string"
  clock :: "nat \<Rightarrow> int"
  local_offset :: int

definition now_utc :: "env \<Rightarrow> datetime" where
  "now_utc E = \<lparr>wall = clock E 0, tzinfo = Some 0\<rparr>"

definition now_naive :: "env \<Rightarrow> datetime" where
  "now_naive E = \<lparr>wall = clock E 0 + local_offset E, tzinfo = None\<rparr>"

definition later :: "env \<Rightarrow> nat \<Rightarrow> env" where
  "later E k = E\<lparr>clock := (\<lambda>n. clock E (n + k))\<rparr>"

definition replace_Z :: "string \<Rightarrow> string" where
  "replace_Z s = concat (map (\<lambda>c. if c = CHR ''Z'' then ''+00:00'' else [c]) s)"

definition assume_utc :: "datetime \<Rightarrow> datetime" where
  "assume_utc dt = (if tzinfo dt = None then dt\<lparr>tzinfo := Some 0\<rparr> else dt)"

section \<open>Helper functions of the server\<close>

text \<open>
  \<^verbatim>\<open>parse_datetime(dt_str)\<close>. The argument is \<open>None\<close> for Python's \<^verbatim>\<open>None\<close>. Each
  \<^verbatim>\<open>except ValueError\<close> lets every other exception through; the last \<^verbatim>\<open>except:\<close> catches
  everything.
\<close>

definition parse_datetime :: "env \<Rightarrow> string option \<Rightarrow> py_exn + datetime" where
  "parse_datetime E dt_str =
     (case dt_str of
        None \<Rightarrow> Inr (now_utc E)
      | Some s \<Rightarrow>
          if s = [] then Inr (now_utc E)
          else
            (case fromisoformat E s of
               Inr dt \<Rightarrow> Inr (assume_utc dt)
             | Inl e1 \<Rightarrow>
                 if e1 \<noteq> ValueError then Inl e1
                 else
                   (case fromisoformat E (replace_Z s) of
                      Inr dt \<Rightarrow> Inr (assume_utc dt)
                    | Inl e2 \<Rightarrow>
                        if e2 \<noteq> ValueError then Inl e2
                        else
                          (case fromisoformat E s of
                             Inr dt \<Rightarrow> Inr (dt\<lparr>tzinfo := Some 0\<rparr>)
                           | Inl e3 \<Rightarrow>
                               if e3 \<noteq> ValueError then Inl e3
                               else
                                 (case dateutil_parse E s of
                                    Inr dt \<Rightarrow> Inr (assume_utc dt)
                                  | Inl e4 \<Rightarrow> Inr (now_utc E))))))"

subsection \<open>The store\<close>

text \<open>
  A meeting is a dictionary with the keys below; a field is \<open>None\<close> when the key is absent.
  The key \<^verbatim>\<open>id\<close> is the field \<open>mid\<close>.
\<close>

record meeting =
  mid :: "string option"
  title :: "string option"
  participants :: "string list option"
  start_time :: "string option"
  end_time :: "string option"
  timezone :: "string option"
  agenda :: "string option"
  meeting_type :: "string option"
  effectiveness_score :: "real option"

record meeting_preferences =
  max_daily_meetings :: "int option"

record user =
  user_id :: "string option"
  preferences :: "meeting_preferences option"

record store =
  meetings :: "meeting list"
  users :: "user list"

fun get_user_meetings_loop :: "meeting list \<Rightarrow> string \<Rightarrow> py_exn + meeting list" where
  "get_user_meetings_loop [] uid = Inr []"
| "get_user_meetings_loop (m # ms) uid =
     ebind (getitem (participants m)) (\<lambda>ps.
       ebind (get_user_meetings_loop ms uid) (\<lambda>rest.
         Inr (if uid \<in> set ps then m # rest else rest)))"

definition get_user_meetings :: "store \<Rightarrow> string \<Rightarrow> py_exn + meeting list" where
  "get_user_meetings D uid = get_user_meetings_loop (meetings D) uid"


text \<open>
  \<^verbatim>\<open>check_time_conflict(meeting1, meeting2)\<close>: the body runs under
  \<^verbatim>\<open>try ... except Exception: return False\<close>. Each of the four calls of \<^verbatim>\<open>parse_datetime\<close>
  that falls back to the current time reads the clock afresh: the first call sees the
  reading of \<open>E\<close>, the following ones those of \<open>later E 1\<close>, \<open>later E 2\<close> and \<open>later E 3\<close>.
\<close>

definition check_time_conflict :: "env \<Rightarrow> meeting \<Rightarrow> meeting \<Rightarrow> bool" where
  "check_time_conflict E meeting1 meeting2 =
     (case
        ebind (getitem (start_time meeting1)) (\<lambda>s1.
        ebind (parse_datetime E (Some s1)) (\<lambda>start1.
        ebind (getitem (end_time meeting1)) (\<lambda>e1.
        ebind (parse_datetime (later E 1) (Some e1)) (\<lambda>end1.
        ebind (getitem (start_time meeting2)) (\<lambda>s2.
        ebind (parse_datetime (later E 2) (Some s2)) (\<lambda>start2.
        ebind (getitem (end_time meeting2)) (\<lambda>e2.
        ebind (parse_datetime (later E 3) (Some e2)) (\<lambda>end2.
          py_and (dt_lt (assume_utc start1) (assume_utc end2))
                 (dt_lt (assume_utc start2) (assume_utc end1))))))))))
      of Inl e \<Rightarrow> False | Inr b \<Rightarrow> b)"

text \<open>\<^verbatim>\<open>parse_datetime(meeting["start_time"])\<close> and \<^verbatim>\<open>parse_datetime(meeting["end_time"])\<close>.\<close>

definition start_dt :: "env \<Rightarrow> meeting \<Rightarrow> py_exn + datetime" where
  "start_dt E m = ebind (getitem (start_time m)) (\<lambda>s. parse_datetime E (Some s))"

definition end_dt :: "env \<Rightarrow> meeting \<Rightarrow> py_exn + datetime" where
  "end_dt E m = ebind (getitem (end_time m)) (\<lambda>s. parse_datetime E (Some s))"

fun get_user_preferences :: "user list \<Rightarrow> string \<Rightarrow> py_exn + user option" where
  "get_user_preferences [] uid = Inr None"
| "get_user_preferences (u # us) uid =
     ebind (getitem (user_id u)) (\<lambda>i.
       if i = uid then Inr (Some u) else get_user_preferences us uid)"

text \<open>
  \<^verbatim>\<open>user_prefs.get("meeting_preferences", {}).get("max_daily_meetings", 5) if user_prefs else 5\<close>
\<close>

definition limit_of :: "user option \<Rightarrow> int" where
  "limit_of user_prefs =
     (case user_prefs of
        None \<Rightarrow> 5
      | Some u \<Rightarrow>
          (case preferences u of
             None \<Rightarrow> 5
           | Some p \<Rightarrow> (case max_daily_meetings p of None \<Rightarrow> 5 | Some n \<Rightarrow> n)))"

subsection \<open>find_available_slots\<close>

record slot =
  slot_start_time :: string
  slot_end_time :: string
  slot_duration_minutes :: int




text \<open>\<^verbatim>\<open>d + timedelta(minutes=n)\<close>: the constructor runs first, then the addition.\<close>

definition add_minutes :: "datetime \<Rightarrow> int \<Rightarrow> py_exn + datetime" where
  "add_minutes d n = ebind (timedelta_minutes n) (\<lambda>td. dt_add d td)"





section \<open>The endpoints\<close>

subsection \<open>create_meeting\<close>

record MeetingCreateRequest =
  req_title :: string
  req_participants :: "string list"
  req_duration :: int
  req_start_time :: "string option"
  req_timezone :: string
  req_agenda :: "string option"
  req_meeting_type :: string

record conflict =
  conflict_participant :: string
  conflicting_meeting :: string
  conflict_time :: string

record create_response =
  created_status :: string
  created_meeting :: meeting
  conflicts_detected :: "conflict list"
  created_message :: string

text \<open>Decimal numerals, for \<^verbatim>\<open>f"m{len(data['meetings']) + 1}"\<close>.\<close>

definition digit_char :: "nat \<Rightarrow> char" where
  "digit_char d = char_of (d + 48)"

fun decimal :: "nat \<Rightarrow> string" where
  "decimal n = (if n < 10 then [digit_char n] else decimal (n div 10) @ [digit_char (n mod 10)])"

declare decimal.simps [simp del]

text \<open>\<^verbatim>\<open>str(i)\<close> on an integer.\<close>

definition str_int :: "int \<Rightarrow> string" where
  "str_int i = (if 0 \<le> i then decimal (nat i) else CHR ''-'' # decimal (nat (- i)))"

text \<open>Truth value of an optional string: \<^verbatim>\<open>None\<close> and the empty string are false.\<close>

definition truthy :: "string option \<Rightarrow> bool" where
  "truthy x = (case x of None \<Rightarrow> False | Some s \<Rightarrow> s \<noteq> [])"

text \<open>\<^verbatim>\<open>x or y\<close> on an optional string \<open>x\<close>.\<close>

definition or_else :: "string option \<Rightarrow> string \<Rightarrow> string" where
  "or_else x y = (case x of None \<Rightarrow> y | Some s \<Rightarrow> if s = [] then y else s)"

text \<open>
  The conflict scan of \<^verbatim>\<open>create_meeting\<close> runs under its own \<^verbatim>\<open>try\<close>: an exception ends
  the scan and keeps the conflicts appended so far. The loops return the list and the
  exception that ended them, if any. Each call of \<^verbatim>\<open>check_time_conflict\<close> has four clock
  readings of its own.
\<close>

fun scan_meetings ::
  "env \<Rightarrow> meeting \<Rightarrow> string \<Rightarrow> meeting list \<Rightarrow> conflict list \<Rightarrow> conflict list \<times> py_exn option" where
  "scan_meetings E new_meeting participant [] conflicts = (conflicts, None)"
| "scan_meetings E new_meeting participant (m # ms) conflicts =
     (if check_time_conflict E new_meeting m then
        (case getitem (title m) of
           Inl e \<Rightarrow> (conflicts, Some e)
         | Inr t \<Rightarrow>
             (case getitem (start_time m) of
                Inl e \<Rightarrow> (conflicts, Some e)
              | Inr st \<Rightarrow>
                  scan_meetings (later E 4) new_meeting participant ms
                    (conflicts @ [\<lparr>conflict_participant = participant,
                                   conflicting_meeting = t, conflict_time = st\<rparr>])))
      else scan_meetings (later E 4) new_meeting participant ms conflicts)"

fun scan_participants ::
  "env \<Rightarrow> store \<Rightarrow> meeting \<Rightarrow> string list \<Rightarrow> conflict list \<Rightarrow> conflict list \<times> py_exn option" where
  "scan_participants E D new_meeting [] conflicts = (conflicts, None)"
| "scan_participants E D new_meeting (p # ps) conflicts =
     (case get_user_meetings D p of
        Inl e \<Rightarrow> (conflicts, Some e)
      | Inr user_meetings \<Rightarrow>
          (case scan_meetings E new_meeting p user_meetings conflicts of
             (conflicts', Some e) \<Rightarrow> (conflicts', Some e)
           | (conflicts', None) \<Rightarrow>
               scan_participants (later E (4 * length user_meetings)) D new_meeting ps
                 conflicts'))"

text \<open>
  The meeting that \<^verbatim>\<open>create_meeting\<close> builds. The clock is read for \<^verbatim>\<open>current_time\<close>, then
  \<^verbatim>\<open>parse_datetime\<close> runs under the inner \<^verbatim>\<open>try\<close>, whose \<^verbatim>\<open>except\<close> falls back to the current
  time plus the duration; an exception in the fallback itself is not caught there.
\<close>

definition new_meeting_of :: "env \<Rightarrow> store \<Rightarrow> MeetingCreateRequest \<Rightarrow> py_exn + meeting" where
  "new_meeting_of E D req =
     (let meeting_id = ''m'' @ decimal (length (meetings D) + 1);
          current_time = now_utc E;
          start = or_else (req_start_time req) (isoformat E current_time);
          fallback = ebind (add_minutes current_time (req_duration req)) (\<lambda>d.
                       Inr (isoformat E d))
      in ebind (if truthy (req_start_time req) then
                  (case ebind (parse_datetime (later E 1) (req_start_time req)) (\<lambda>sd.
                          add_minutes sd (req_duration req)) of
                     Inr end_dt' \<Rightarrow> Inr (isoformat E end_dt')
                   | Inl e \<Rightarrow> fallback)
                else fallback) (\<lambda>end.
           Inr \<lparr>mid = Some meeting_id,
                title = Some (req_title req),
                participants = Some (req_participants req),
                start_time = Some start,
                end_time = Some end,
                timezone = Some (req_timezone req),
                agenda = Some (or_else (req_agenda req)
                                 (''Meeting agenda for '' @ req_title req)),
                meeting_type = Some (req_meeting_type req),
                effectiveness_score = Some 0\<rparr>))"

text \<open>
  \<^verbatim>\<open>create_meeting(req)\<close> returns its response and the store after the call. An exception
  outside the conflict scan becomes \<^verbatim>\<open>HTTPException(500)\<close> and leaves the store as it was.
  The scan starts after the two clock readings above.
\<close>

definition create_meeting ::
  "env \<Rightarrow> store \<Rightarrow> MeetingCreateRequest \<Rightarrow> (py_exn + create_response) \<times> store" where
  "create_meeting E D req =
     (case new_meeting_of E D req of
        Inl e \<Rightarrow> (Inl (HTTPException 500), D)
      | Inr new_meeting \<Rightarrow>
          (let conflicts =
                 fst (scan_participants (later E 2) D new_meeting (req_participants req) [])
           in (Inr \<lparr>created_status = ''success'',
                    created_meeting = new_meeting,
                    conflicts_detected = conflicts,
                    created_message = ''Meeting '' @ [CHR 0x27] @ req_title req @ [CHR 0x27]
                                        @ '' created successfully''\<rparr>,
               D\<lparr>meetings := meetings D @ [new_meeting]\<rparr>)))"

subsection \<open>find_optimal_slots\<close>

record OptimalSlotsRequest =
  osr_participants :: "string list"
  osr_duration :: int
  osr_date_range :: "string list"

record optimal_slot =
  os_start_time :: string
  os_end_time :: string
  os_duration_minutes :: int
  ai_score :: int
  recommended :: bool

record optimal_response =
  or_status :: string
  optimal_slots :: "optimal_slot list"
  or_participants :: "string list"
  or_duration_minutes :: int

text \<open>
  The loop body for the index \<open>i\<close>: \<^verbatim>\<open>slot_start = current_time + timedelta(days=i+1, hours=9)\<close>
  and \<^verbatim>\<open>slot_end = slot_start + timedelta(minutes=req.duration)\<close>.
\<close>

definition example_slot :: "env \<Rightarrow> int \<Rightarrow> datetime \<Rightarrow> int \<Rightarrow> py_exn + optimal_slot" where
  "example_slot E duration current_time i =
     ebind (dt_add current_time (timedelta_of (i + 1) 9 0)) (\<lambda>slot_start.
     ebind (add_minutes slot_start duration) (\<lambda>slot_end.
       Inr \<lparr>os_start_time = isoformat E slot_start,
            os_end_time = isoformat E slot_end,
            os_duration_minutes = duration,
            ai_score = 10 - i,
            recommended = (i < 2)\<rparr>))"

fun example_slots :: "env \<Rightarrow> int \<Rightarrow> datetime \<Rightarrow> int list \<Rightarrow> py_exn + optimal_slot list" where
  "example_slots E duration current_time [] = Inr []"
| "example_slots E duration current_time (i # rest) =
     ebind (example_slot E duration current_time i) (\<lambda>slot.
     ebind (example_slots E duration current_time rest) (\<lambda>slots.
       Inr (slot # slots)))"

text \<open>
  \<^verbatim>\<open>find_optimal_slots(req)\<close>: the whole body runs under \<^verbatim>\<open>try\<close>, and every exception becomes
  \<^verbatim>\<open>HTTPException(500)\<close>.
\<close>

definition find_optimal_slots :: "env \<Rightarrow> OptimalSlotsRequest \<Rightarrow> py_exn + optimal_response" where
  "find_optimal_slots E req =
     (case example_slots E (osr_duration req) (now_naive E) [0, 1, 2, 3, 4] of
        Inl e \<Rightarrow> Inl (HTTPException 500)
      | Inr slots \<Rightarrow>
          Inr \<lparr>or_status = ''success'',
               optimal_slots = slots,
               or_participants = osr_participants req,
               or_duration_minutes = osr_duration req\<rparr>)"

text \<open>Where the slot with index \<open>i\<close> starts when nothing overflows.\<close>

definition slot_start_of :: "env \<Rightarrow> int \<Rightarrow> datetime" where
  "slot_start_of E i = shift (now_naive E) (timedelta_of (i + 1) 9 0)"

subsection \<open>detect_scheduling_conflicts\<close>


record range_conflict =
  rc_meeting_id :: string
  rc_title :: string
  rc_start_time :: string
  rc_end_time :: string
  rc_participants :: "string list"

record conflicts_response =
  cf_status :: string
  cf_user_id :: string
  cf_time_range :: "string list"
  conflicts_found :: nat
  conflicts :: "range_conflict list"





subsection \<open>calculate_workload_balance\<close>

record workload =
  total_meetings :: nat
  total_duration_minutes :: real
  average_daily_meetings :: real
  peak_daily_meetings :: nat
  workload_score :: real
  preference_limit :: int

record balance_response =
  bal_status :: string
  bal_team_members :: "string list"
  workload_distribution :: "(string \<times> workload) list"
  average_workload :: real
  overloaded_members :: "string list"
  underutilized_members :: "string list"
  balance_score :: real
  bal_recommendations :: "string list"

text \<open>\<^verbatim>\<open>sum((parse_datetime(m["end_time"]) - parse_datetime(m["start_time"])).total_seconds() / 60 ...)\<close>\<close>

fun total_duration_of :: "env \<Rightarrow> meeting list \<Rightarrow> py_exn + real" where
  "total_duration_of E [] = Inr 0"
| "total_duration_of E (m # ms) =
     ebind (end_dt E m) (\<lambda>e.
     ebind (start_dt E m) (\<lambda>s.
     ebind (dt_sub e s) (\<lambda>td.
     ebind (total_duration_of E ms) (\<lambda>rest.
       Inr (total_seconds td / 60 + rest)))))"

text \<open>A dictionary that keeps insertion order is an association list.\<close>

fun count_days :: "env \<Rightarrow> meeting list \<Rightarrow> (int \<times> nat) list \<Rightarrow> py_exn + (int \<times> nat) list" where
  "count_days E [] daily_meetings = Inr daily_meetings"
| "count_days E (m # ms) daily_meetings =
     ebind (start_dt E m) (\<lambda>d.
       count_days E ms
         (AList.update (date_of d)
            ((case map_of daily_meetings (date_of d) of None \<Rightarrow> 0 | Some c \<Rightarrow> c) + 1)
            daily_meetings))"

text \<open>\<^verbatim>\<open>max\<close> and \<^verbatim>\<open>min\<close> of a list raise \<^verbatim>\<open>ValueError\<close> on the empty list.\<close>

definition py_max :: "'a::linorder list \<Rightarrow> py_exn + 'a" where
  "py_max xs = (case xs of [] \<Rightarrow> Inl ValueError | x # rest \<Rightarrow> Inr (fold max rest x))"

definition py_min :: "'a::linorder list \<Rightarrow> py_exn + 'a" where
  "py_min xs = (case xs of [] \<Rightarrow> Inl ValueError | x # rest \<Rightarrow> Inr (fold min rest x))"

definition py_div :: "real \<Rightarrow> real \<Rightarrow> py_exn + real" where
  "py_div a b = (if b = 0 then Inl ZeroDivisionError else Inr (a / b))"

definition member_workload :: "env \<Rightarrow> store \<Rightarrow> string \<Rightarrow> py_exn + workload" where
  "member_workload E D member =
     ebind (get_user_meetings D member) (\<lambda>user_meetings.
     ebind (get_user_preferences (users D) member) (\<lambda>user_prefs.
     ebind (total_duration_of E user_meetings) (\<lambda>total_duration.
     ebind (count_days E user_meetings []) (\<lambda>daily_meetings.
     ebind (if daily_meetings \<noteq> [] then py_max (map snd daily_meetings) else Inr 0) (\<lambda>peak.
       Inr \<lparr>total_meetings = length user_meetings,
            total_duration_minutes = total_duration,
            average_daily_meetings =
              (if length user_meetings > 0 then real (length user_meetings) / 30 else 0),
            peak_daily_meetings = peak,
            workload_score =
              real (length user_meetings) * (4 / 10) + total_duration * (1 / 100)
                + real peak * (6 / 10),
            preference_limit = limit_of user_prefs\<rparr>)))))"

fun team_workload_loop ::
  "env \<Rightarrow> store \<Rightarrow> string list \<Rightarrow> (string \<times> workload) list \<Rightarrow> py_exn + (string \<times> workload) list" where
  "team_workload_loop E D [] team_workload = Inr team_workload"
| "team_workload_loop E D (member # rest) team_workload =
     ebind (member_workload E D member) (\<lambda>w.
       team_workload_loop E D rest (AList.update member w team_workload))"

fun join_comma :: "string list \<Rightarrow> string" where
  "join_comma [] = []"
| "join_comma [x] = x"
| "join_comma (x # y # rest) = x @ '', '' @ join_comma (y # rest)"

text \<open>
  The balance score: \<^verbatim>\<open>1 - (max(ws) - min(ws)) / max(ws) if ws else 1\<close>. The condition
  tests only that the list is not empty.
\<close>

definition balance_of :: "real list \<Rightarrow> py_exn + real" where
  "balance_of workload_scores =
     (if workload_scores \<noteq> [] then
        ebind (py_max workload_scores) (\<lambda>mx.
        ebind (py_min workload_scores) (\<lambda>mn.
        ebind (py_max workload_scores) (\<lambda>mx'.
        ebind (py_div (mx - mn) mx') (\<lambda>q.
          Inr (1 - q)))))
      else Inr 1)"

definition calculate_workload_balance ::
  "env \<Rightarrow> store \<Rightarrow> string list \<Rightarrow> py_exn + balance_response" where
  "calculate_workload_balance E D team_members =
     ebind (team_workload_loop E D team_members []) (\<lambda>team_workload.
       (let workload_scores = map (\<lambda>p. workload_score (snd p)) team_workload;
            avg_workload =
              (if workload_scores \<noteq> [] then
                 sum_list workload_scores / real (length workload_scores)
               else 0);
            overloaded =
              map fst (filter (\<lambda>p. workload_score (snd p) > avg_workload * (12 / 10)) team_workload);
            underutilized =
              map fst (filter (\<lambda>p. workload_score (snd p) < avg_workload * (8 / 10)) team_workload)
        in ebind (balance_of workload_scores) (\<lambda>score.
             Inr \<lparr>bal_status = ''success'',
                  bal_team_members = team_members,
                  workload_distribution = team_workload,
                  average_workload = avg_workload,
                  overloaded_members = overloaded,
                  underutilized_members = underutilized,
                  balance_score = score,
                  bal_recommendations =
                    [if overloaded \<noteq> [] \<and> underutilized \<noteq> [] then
                       ''Consider redistributing meetings from '' @ join_comma overloaded
                         @ '' to '' @ join_comma underutilized
                     else ''Workload is well balanced'']\<rparr>)))"

subsection \<open>score_meeting_effectiveness\<close>

record effectiveness_response =
  eff_status :: string
  eff_meeting_id :: string
  eff_meeting_title :: string
  eff_score :: real
  score_breakdown :: "(string \<times> real) list"
  improvement_suggestions :: "string list"
  ai_analysis :: bool

fun find_meeting :: "meeting list \<Rightarrow> string \<Rightarrow> py_exn + meeting option" where
  "find_meeting [] meeting_id = Inr None"
| "find_meeting (m # ms) meeting_id =
     ebind (getitem (mid m)) (\<lambda>i.
       if i = meeting_id then Inr (Some m) else find_meeting ms meeting_id)"

text \<open>\<^verbatim>\<open>round(x, 2)\<close> on exact reals: to the nearest hundredth, a tie to the even one.\<close>

definition round_half_even :: "real \<Rightarrow> int" where
  "round_half_even x =
     (let f = \<lfloor>x\<rfloor>; r = x - of_int f
      in if r < 1 / 2 then f else if r > 1 / 2 then f + 1 else if even f then f else f + 1)"

definition py_round2 :: "real \<Rightarrow> real" where
  "py_round2 x = of_int (round_half_even (x * 100)) / 100"

definition duration_score_of :: "real \<Rightarrow> real" where
  "duration_score_of duration =
     (if 30 \<le> duration \<and> duration \<le> 60 then 10
      else if 15 \<le> duration \<and> duration \<le> 90 then 7 else 4)"

definition participant_score_of :: "nat \<Rightarrow> real" where
  "participant_score_of participant_count =
     (if 3 \<le> participant_count \<and> participant_count \<le> 8 then 10
      else if 2 \<le> participant_count \<and> participant_count \<le> 12 then 7 else 4)"

definition time_score_of :: "int \<Rightarrow> real" where
  "time_score_of h =
     (if 9 \<le> h \<and> h \<le> 17 then 10 else if 8 \<le> h \<and> h \<le> 18 then 7 else 4)"

definition type_scores :: "(string \<times> real) list" where
  "type_scores =
     [(''team_sync'', 8), (''planning'', 9), (''review'', 8), (''workshop'', 9),
      (''standup'', 7), (''retrospective'', 8), (''demo'', 8), (''training'', 7)]"

definition type_score_of :: "string option \<Rightarrow> real" where
  "type_score_of ty =
     (case map_of type_scores (case ty of None \<Rightarrow> ''general'' | Some t \<Rightarrow> t) of
        None \<Rightarrow> 6 | Some v \<Rightarrow> v)"

definition agenda_score_of :: "string option \<Rightarrow> real" where
  "agenda_score_of ag =
     (let a = (case ag of None \<Rightarrow> [] | Some t \<Rightarrow> t)
      in if length a > 20 then 10 else if length a > 10 then 7 else 4)"

text \<open>\<^verbatim>\<open>meeting.get("effectiveness_score", 0)\<close>\<close>

definition stored_score :: "meeting \<Rightarrow> real" where
  "stored_score m = (case effectiveness_score m of None \<Rightarrow> 0 | Some v \<Rightarrow> v)"

definition score_meeting_effectiveness ::
  "env \<Rightarrow> store \<Rightarrow> string \<Rightarrow> py_exn + effectiveness_response" where
  "score_meeting_effectiveness E D meeting_id =
     ebind (find_meeting (meetings D) meeting_id) (\<lambda>found.
       case found of
         None \<Rightarrow> Inl (HTTPException 404)
       | Some m \<Rightarrow>
           ebind (end_dt E m) (\<lambda>e.
           ebind (start_dt E m) (\<lambda>s.
           ebind (dt_sub e s) (\<lambda>td.
           ebind (getitem (participants m)) (\<lambda>ps.
           ebind (start_dt E m) (\<lambda>start.
             (let duration_score = duration_score_of (total_seconds td / 60);
                  participant_score = participant_score_of (length ps);
                  time_score = time_score_of (hour start);
                  type_score = type_score_of (meeting_type m);
                  agenda_score = agenda_score_of (agenda m);
                  score = 0 + duration_score * (2 / 10) + participant_score * (15 / 100)
                            + time_score * (15 / 100) + type_score * (2 / 10)
                            + agenda_score * (1 / 10);
                  historical = (stored_score m > 0);
                  score' = (if historical then score + stored_score m * (2 / 10) else score);
                  factors =
                    [(''duration_score'', duration_score),
                     (''participant_score'', participant_score),
                     (''time_score'', time_score),
                     (''type_score'', type_score),
                     (''agenda_score'', agenda_score)]
                    @ (if historical then [(''historical_score'', stored_score m)] else []);
                  final_score = min 10 (max 0 score');
                  suggestions =
                    (if duration_score < 7 then
                       [''Consider adjusting meeting duration for better engagement''] else [])
                    @ (if participant_score < 7 then
                         [''Review participant list to ensure optimal group size''] else [])
                    @ (if time_score < 7 then
                         [''Consider rescheduling to business hours for better attendance'']
                       else [])
                    @ (if agenda_score < 7 then
                         [''Add detailed agenda items to improve meeting focus''] else [])
              in ebind (getitem (title m)) (\<lambda>t.
                   Inr \<lparr>eff_status = ''success'',
                        eff_meeting_id = meeting_id,
                        eff_meeting_title = t,
                        eff_score = py_round2 final_score,
                        score_breakdown = factors,
                        improvement_suggestions = suggestions,
                        ai_analysis = True\<rparr>))))))))"

subsection \<open>optimize_meeting_schedule\<close>

datatype recommendation =
    OverloadedDay string nat string "string list"
  | InsufficientBreak string string string string
  | NonBusinessHours "string list" string

record optimize_report =
  opt_user_id :: string
  current_meeting_count :: nat
  optimization_score :: int
  recommendations :: "recommendation list"
  schedule_efficiency :: string
  workload_label :: string
  time_utilization :: string

datatype optimize_response =
    NoMeetings string string
  | Report optimize_report

text \<open>The dictionary from a date to the list of that day's meetings, in insertion order.\<close>

fun group_by_date ::
  "env \<Rightarrow> meeting list \<Rightarrow> (int \<times> meeting list) list \<Rightarrow> py_exn + (int \<times> meeting list) list" where
  "group_by_date E [] daily_meetings = Inr daily_meetings"
| "group_by_date E (m # ms) daily_meetings =
     ebind (start_dt E m) (\<lambda>d.
       group_by_date E ms
         (AList.update (date_of d)
            ((case map_of daily_meetings (date_of d) of None \<Rightarrow> [] | Some l \<Rightarrow> l) @ [m])
            daily_meetings))"

text \<open>\<^verbatim>\<open>xs[k:]\<close>: a negative \<open>k\<close> counts from the end.\<close>

definition slice_from :: "'a list \<Rightarrow> int \<Rightarrow> 'a list" where
  "slice_from xs k =
     (if 0 \<le> k then drop (nat k) xs else drop (nat (int (length xs) + k)) xs)"

fun titles_of :: "meeting list \<Rightarrow> py_exn + string list" where
  "titles_of [] = Inr []"
| "titles_of (m # ms) =
     ebind (getitem (title m)) (\<lambda>t. ebind (titles_of ms) (\<lambda>rest. Inr (t # rest)))"

fun overloaded_recs ::
  "env \<Rightarrow> int \<Rightarrow> (int \<times> meeting list) list \<Rightarrow> py_exn + recommendation list" where
  "overloaded_recs E max_daily_limit [] = Inr []"
| "overloaded_recs E max_daily_limit ((date, ms) # rest) =
     ebind (titles_of (slice_from ms max_daily_limit)) (\<lambda>ts.
     ebind (overloaded_recs E max_daily_limit rest) (\<lambda>recs.
       Inr (OverloadedDay (date_isoformat E date) (length ms)
              (''Consider rescheduling '' @ str_int (int (length ms) - max_daily_limit)
                 @ '' meetings from '' @ date_isoformat E date)
              ts # recs)))"

text \<open>\<^verbatim>\<open>sorted(meetings, key=lambda m: m["start_time"])\<close>: a stable sort on the strings.\<close>

fun start_keys :: "meeting list \<Rightarrow> py_exn + (string \<times> meeting) list" where
  "start_keys [] = Inr []"
| "start_keys (m # ms) =
     ebind (getitem (start_time m)) (\<lambda>k. ebind (start_keys ms) (\<lambda>rest. Inr ((k, m) # rest)))"

definition sorted_by_start :: "meeting list \<Rightarrow> py_exn + meeting list" where
  "sorted_by_start ms = ebind (start_keys ms) (\<lambda>km. Inr (map snd (sort_key fst km)))"

fun breaks_of :: "env \<Rightarrow> string \<Rightarrow> meeting list \<Rightarrow> py_exn + recommendation list" where
  "breaks_of E date (a # b # rest) =
     ebind (end_dt E a) (\<lambda>current_end.
     ebind (start_dt E b) (\<lambda>next_start.
     ebind (dt_sub next_start current_end) (\<lambda>gap.
     ebind (if total_seconds gap < 900 then
              ebind (getitem (title a)) (\<lambda>t1.
              ebind (getitem (title b)) (\<lambda>t2.
                Inr [InsufficientBreak date t1 t2
                       ''Add buffer time between meetings for better productivity'']))
            else Inr []) (\<lambda>r.
     ebind (breaks_of E date (b # rest)) (\<lambda>rs.
       Inr (r @ rs))))))"
| "breaks_of E date ms = Inr []"

fun break_recs :: "env \<Rightarrow> (int \<times> meeting list) list \<Rightarrow> py_exn + recommendation list" where
  "break_recs E [] = Inr []"
| "break_recs E ((date, ms) # rest) =
     ebind (if length ms > 1 then
              ebind (sorted_by_start ms) (\<lambda>sorted_meetings.
                breaks_of E (date_isoformat E date) sorted_meetings)
            else Inr []) (\<lambda>r.
     ebind (break_recs E rest) (\<lambda>rs.
       Inr (r @ rs)))"

fun non_business :: "env \<Rightarrow> meeting list \<Rightarrow> py_exn + meeting list" where
  "non_business E [] = Inr []"
| "non_business E (m # ms) =
     ebind (start_dt E m) (\<lambda>start.
     ebind (non_business E ms) (\<lambda>rest.
       Inr (if hour start < 8 \<or> hour start > 18 then m # rest else rest)))"

definition optimize_meeting_schedule :: "env \<Rightarrow> store \<Rightarrow> string \<Rightarrow> py_exn + optimize_response" where
  "optimize_meeting_schedule E D uid =
     ebind (get_user_meetings D uid) (\<lambda>user_meetings.
     ebind (get_user_preferences (users D) uid) (\<lambda>user_prefs.
       if user_meetings = [] then Inr (NoMeetings uid ''No meetings found for optimization'')
       else
         ebind (group_by_date E user_meetings []) (\<lambda>daily_meetings.
           (let max_daily_limit = limit_of user_prefs;
                overloaded_days =
                  filter (\<lambda>p. int (length (snd p)) > max_daily_limit) daily_meetings
            in ebind (overloaded_recs E max_daily_limit overloaded_days) (\<lambda>recs1.
               ebind (break_recs E daily_meetings) (\<lambda>recs2.
               ebind (non_business E user_meetings) (\<lambda>non_business_meetings.
               ebind (if non_business_meetings \<noteq> [] then
                        ebind (titles_of non_business_meetings) (\<lambda>ts.
                          Inr [NonBusinessHours ts
                                 ''Consider rescheduling meetings to business hours for better attendance''])
                      else Inr []) (\<lambda>recs3.
                 (let score = 100 - int (length overloaded_days) * 20
                                - int (length non_business_meetings) * 10
                  in Inr (Report
                       \<lparr>opt_user_id = uid,
                        current_meeting_count = length user_meetings,
                        optimization_score = max 0 score,
                        recommendations = recs1 @ recs2 @ recs3,
                        schedule_efficiency =
                          (if score \<ge> 80 then ''Good'' else ''Needs improvement''),
                        workload_label =
                          (if overloaded_days = [] then ''Balanced'' else ''Unbalanced''),
                        time_utilization =
                          (if non_business_meetings = [] then ''Optimal''
                           else ''Suboptimal'')\<rparr>))))))))))"

section \<open>Timestamps the library parses\<close>

text \<open>
  What \<^verbatim>\<open>parse_datetime\<close> returns when one of its three library attempts succeeds, and
  \<open>None\<close> when it raises or falls back to the clock. A timestamp with a result here parses
  to the same datetime whatever the clock shows.
\<close>

definition library_parse :: "env \<Rightarrow> string \<Rightarrow> datetime option" where
  "library_parse E s =
     (if s = [] then None
      else
        (case fromisoformat E s of
           Inr dt \<Rightarrow> Some (assume_utc dt)
         | Inl e1 \<Rightarrow>
             if e1 \<noteq> ValueError then None
             else
               (case fromisoformat E (replace_Z s) of
                  Inr dt \<Rightarrow> Some (assume_utc dt)
                | Inl e2 \<Rightarrow>
                    if e2 \<noteq> ValueError then None
                    else
                      (case dateutil_parse E s of
                         Inr dt \<Rightarrow> Some (assume_utc dt)
                       | Inl e4 \<Rightarrow> None))))"

section \<open>A fixture\<close>

text \<open>
  A concrete library for the examples: \<^verbatim>\<open>fromisoformat\<close> knows the timestamps of the table
  and raises \<^verbatim>\<open>ValueError\<close> on every other string, \<^verbatim>\<open>dateutil\<close> knows one more format. The
  clock shows 2024-01-01 14:30 UTC and one microsecond more at each further reading.
\<close>

definition fixture_instants :: "(string \<times> datetime) list" where
  "fixture_instants =
     [(''2024-01-15T08:00:00'', mk_datetime 2024 1 15 8 0 None),
      (''2024-01-15T09:00:00'', mk_datetime 2024 1 15 9 0 None),
      (''2024-01-15T09:30:00'', mk_datetime 2024 1 15 9 30 None),
      (''2024-01-15T10:00:00'', mk_datetime 2024 1 15 10 0 None),
      (''2024-01-15T10:30:00'', mk_datetime 2024 1 15 10 30 None),
      (''2024-01-15T11:00:00'', mk_datetime 2024 1 15 11 0 None),
      (''2024-01-15T11:30:00'', mk_datetime 2024 1 15 11 30 None),
      (''2024-01-15T12:00:00'', mk_datetime 2024 1 15 12 0 None),
      (''2024-01-15T12:30:00'', mk_datetime 2024 1 15 12 30 None),
      (''2024-01-15T13:00:00'', mk_datetime 2024 1 15 13 0 None),
      (''2024-01-15T13:30:00'', mk_datetime 2024 1 15 13 30 None),
      (''2024-01-15T14:00:00'', mk_datetime 2024 1 15 14 0 None),
      (''2024-01-15T14:30:00'', mk_datetime 2024 1 15 14 30 None),
      (''2024-01-15T15:00:00'', mk_datetime 2024 1 15 15 0 None),
      (''2024-01-15T15:30:00'', mk_datetime 2024 1 15 15 30 None),
      (''2024-01-15T18:30:00'', mk_datetime 2024 1 15 18 30 None),
      (''2024-01-15T19:00:00'', mk_datetime 2024 1 15 19 0 None),
      (''2024-01-14T23:00:00'', mk_datetime 2024 1 14 23 0 None),
      (''2024-01-16T09:00:00'', mk_datetime 2024 1 16 9 0 None),
      (''2024-01-02T23:30:00'', mk_datetime 2024 1 2 23 30 None),
      (''2024-01-15T11:00:00+02:00'', mk_datetime 2024 1 15 11 0 (Some (timedelta_of 0 2 0))),
      (''2024-01-15T09:00:00+00:00'', mk_datetime 2024 1 15 9 0 (Some 0)),
      (''2024-01-15T10:00:00+00:00'', mk_datetime 2024 1 15 10 0 (Some 0)),
      (''2024-01-15T10:30:00+00:00'', mk_datetime 2024 1 15 10 30 (Some 0)),
      (''2024-01-15T11:00:00+00:00'', mk_datetime 2024 1 15 11 0 (Some 0)),
      (''2024-01-15T11:30:00+00:00'', mk_datetime 2024 1 15 11 30 (Some 0))]"

definition fixture_env :: env where
  "fixture_env =
     \<lparr>fromisoformat =
        (\<lambda>s. case map_of fixture_instants s of None \<Rightarrow> Inl ValueError | Some d \<Rightarrow> Inr d),
      dateutil_parse =
        (\<lambda>s. if s = ''Jan 15 2024 9am'' then Inr (mk_datetime 2024 1 15 9 0 None)
             else Inl ValueError),
      isoformat =
        (\<lambda>d. case find (\<lambda>p. snd p = d) fixture_instants of
                None \<Rightarrow> ''<datetime>'' | Some p \<Rightarrow> fst p),
      date_isoformat = (\<lambda>n. if n = ymd2ord 2024 1 15 then ''2024-01-15'' else ''<date>''),
      clock = (\<lambda>n. utc_us (mk_datetime 2024 1 1 14 30 (Some 0)) + int n),
      local_offset = 0\<rparr>"

text \<open>The library's contract: on a string, \<^verbatim>\<open>fromisoformat\<close> returns or raises \<^verbatim>\<open>ValueError\<close>.\<close>

definition iso_contract :: "env \<Rightarrow> bool" where
  "iso_contract E = (\<forall>s. case fromisoformat E s of Inl e \<Rightarrow> e = ValueError | Inr d \<Rightarrow> True)"

definition mk_meeting ::
  "string \<Rightarrow> string \<Rightarrow> string list \<Rightarrow> string \<Rightarrow> string \<Rightarrow> string \<Rightarrow> string \<Rightarrow> meeting" where
  "mk_meeting i t ps s e ty ag =
     \<lparr>mid = Some i, title = Some t, participants = Some ps, start_time = Some s,
      end_time = Some e, timezone = Some ''UTC'', agenda = Some ag, meeting_type = Some ty,
      effectiveness_score = Some 0\<rparr>"

definition meeting_a :: meeting where
  "meeting_a = mk_meeting ''m1'' ''Sprint planning'' [''alice'', ''bob'', ''carol'']
     ''2024-01-15T09:00:00'' ''2024-01-15T10:00:00'' ''planning''
     ''Plan the sprint and assign owners''"

definition meeting_b :: meeting where
  "meeting_b = mk_meeting ''m2'' ''Design review'' [''alice'', ''bob'']
     ''2024-01-15T10:00:00'' ''2024-01-15T11:00:00'' ''review'' ''Review''"

definition meeting_c :: meeting where
  "meeting_c = mk_meeting ''m3'' ''Customer call'' [''carol'']
     ''2024-01-15T09:30:00'' ''2024-01-15T10:30:00'' ''demo'' ''Demo''"

definition fixture_users :: "user list" where
  "fixture_users =
     [\<lparr>user_id = Some ''alice'', preferences = Some \<lparr>max_daily_meetings = Some 5\<rparr>\<rparr>,
      \<lparr>user_id = Some ''bob'', preferences = None\<rparr>,
      \<lparr>user_id = Some ''erin'', preferences = Some \<lparr>max_daily_meetings = Some 5\<rparr>\<rparr>]"

definition fixture_store :: store where
  "fixture_store = \<lparr>meetings = [meeting_a, meeting_b, meeting_c], users = fixture_users\<rparr>"

text \<open>The breakdown with the largest sub-score of each factor.\<close>

definition best_breakdown :: "(string \<times> real) list" where
  "best_breakdown =
     [(''duration_score'', 10), (''participant_score'', 10), (''time_score'', 10),
      (''type_score'', 9), (''agenda_score'', 10)]"









text \<open>A store with a meeting that has no \<^verbatim>\<open>end_time\<close>, and a request that overlaps it.\<close>

definition untimed_meeting :: meeting where
  "untimed_meeting =
     \<lparr>mid = Some ''m4'', title = Some ''Untimed'', participants = Some [''alice''],
      start_time = Some ''2024-01-15T09:00:00'', end_time = None, timezone = Some ''UTC'',
      agenda = None, meeting_type = None, effectiveness_score = None\<rparr>"

definition untimed_store :: store where
  "untimed_store =
     \<lparr>meetings = [meeting_a, untimed_meeting, meeting_b, meeting_c], users = fixture_users\<rparr>"

definition retro_request :: MeetingCreateRequest where
  "retro_request =
     \<lparr>req_title = ''Retro'', req_participants = [''alice''], req_duration = 60,
      req_start_time = Some ''2024-01-15T09:30:00'', req_timezone = ''UTC'',
      req_agenda = None, req_meeting_type = ''retrospective''\<rparr>"

definition retro_meeting :: meeting where
  "retro_meeting =
     \<lparr>mid = Some ''m5'', title = Some ''Retro'', participants = Some [''alice''],
      start_time = Some ''2024-01-15T09:30:00'', end_time = Some ''2024-01-15T10:30:00+00:00'',
      timezone = Some ''UTC'', agenda = Some ''Meeting agenda for Retro'',
      meeting_type = Some ''retrospective'', effectiveness_score = Some 0\<rparr>"

text \<open>The conflict record of the scan for a participant and a stored meeting.\<close>

definition conflict_of :: "string \<Rightarrow> meeting \<Rightarrow> conflict" where
  "conflict_of p m =
     \<lparr>conflict_participant = p, conflicting_meeting = projr (getitem (title m)),
      conflict_time = projr (getitem (start_time m))\<rparr>"

text \<open>A request for the slot examples.\<close>

definition hour_request :: OptimalSlotsRequest where
  "hour_request = \<lparr>osr_participants = [''alice''], osr_duration = 60, osr_date_range = []\<rparr>"




section \<open>Properties\<close>

subsection \<open>Time interval utilities\<close>

lemma fixture_contract: "iso_contract fixture_env"
  by (simp add: iso_contract_def fixture_env_def split: option.splits)

lemma tzinfo_assume_utc: "tzinfo (assume_utc d) \<noteq> None"
  by (simp add: assume_utc_def)

lemma assume_utc_aware: "tzinfo d \<noteq> None \<Longrightarrow> assume_utc d = d"
  by (simp add: assume_utc_def)

lemma parse_datetime_aware: "parse_datetime E x = Inr d \<Longrightarrow> tzinfo d \<noteq> None"
  by (auto simp: parse_datetime_def now_utc_def assume_utc_def
      split: option.splits if_splits sum.splits)

lemma parse_datetime_cases:
  assumes "iso_contract E"
  shows "parse_datetime E dt_str = Inr
     (case dt_str of
        None \<Rightarrow> now_utc E
      | Some s \<Rightarrow>
          if s = [] then now_utc E
          else
            (case fromisoformat E s of
               Inr x \<Rightarrow> assume_utc x
             | Inl _ \<Rightarrow>
                 (case fromisoformat E (replace_Z s) of
                    Inr x \<Rightarrow> assume_utc x
                  | Inl _ \<Rightarrow>
                      (case dateutil_parse E s of
                         Inr x \<Rightarrow> assume_utc x
                       | Inl _ \<Rightarrow> now_utc E))))"
proof (cases dt_str)
  case None
  then show ?thesis by (simp add: parse_datetime_def)
next
  case (Some s)
  have c1: "\<And>e. fromisoformat E s = Inl e \<Longrightarrow> e = ValueError"
    using assms unfolding iso_contract_def by (metis (mono_tags, lifting) old.sum.simps(5))
  have c2: "\<And>e. fromisoformat E (replace_Z s) = Inl e \<Longrightarrow> e = ValueError"
    using assms unfolding iso_contract_def by (metis (mono_tags, lifting) old.sum.simps(5))
  show ?thesis
    using Some c1 c2 by (auto simp: parse_datetime_def split: sum.splits)
qed

lemma fixture_parse:
  "map_of fixture_instants s = Some d \<Longrightarrow>
     parse_datetime fixture_env (Some s) = Inr (assume_utc d)"
  by (auto simp: parse_datetime_def fixture_env_def fixture_instants_def)

text \<open>
  C5. Given the library's contract, \<open>parse_datetime\<close> raises on no string, empty string or
  \<^verbatim>\<open>None\<close>: it returns an aware datetime. An absent or empty input gives the current instant
  in UTC; a result of \<^verbatim>\<open>fromisoformat\<close> (on the string, or on the string with \<open>Z\<close> replaced) or
  of \<^verbatim>\<open>dateutil\<close> is returned with UTC assigned when it is naive and unchanged otherwise; when
  all three attempts fail the result is the current instant in UTC.
\<close>

theorem parse_datetime_never_raises:
  assumes "iso_contract E"
  shows "\<exists>dt. parse_datetime E dt_str = Inr dt \<and> tzinfo dt \<noteq> None \<and>
     (dt_str = None \<or> dt_str = Some [] \<longrightarrow> dt = now_utc E) \<and>
     (\<forall>s x. dt_str = Some s \<and> s \<noteq> [] \<and> fromisoformat E s = Inr x \<longrightarrow>
        dt = (if tzinfo x = None then x\<lparr>tzinfo := Some 0\<rparr> else x)) \<and>
     (\<forall>s x. dt_str = Some s \<and> s \<noteq> [] \<and> fromisoformat E s = Inl ValueError \<and>
        fromisoformat E (replace_Z s) = Inr x \<longrightarrow>
        dt = (if tzinfo x = None then x\<lparr>tzinfo := Some 0\<rparr> else x)) \<and>
     (\<forall>s x. dt_str = Some s \<and> s \<noteq> [] \<and> fromisoformat E s = Inl ValueError \<and>
        fromisoformat E (replace_Z s) = Inl ValueError \<and> dateutil_parse E s = Inr x \<longrightarrow>
        dt = (if tzinfo x = None then x\<lparr>tzinfo := Some 0\<rparr> else x)) \<and>
     (\<forall>s e. dt_str = Some s \<and> s \<noteq> [] \<and> fromisoformat E s = Inl ValueError \<and>
        fromisoformat E (replace_Z s) = Inl ValueError \<and> dateutil_parse E s = Inl e \<longrightarrow>
        dt = now_utc E)"
proof -
  note c = parse_datetime_cases [OF assms, of dt_str]
  have aware: "\<And>dt. parse_datetime E dt_str = Inr dt \<Longrightarrow> tzinfo dt \<noteq> None"
    by (rule parse_datetime_aware)
  show ?thesis
    using aware unfolding c by (auto simp: assume_utc_def)
qed

theorem parse_datetime_never_raises_witness:
  "iso_contract fixture_env \<and>
   parse_datetime fixture_env (Some ''next tuesday, maybe'') = Inr (now_utc fixture_env) \<and>
   parse_datetime fixture_env (Some []) = Inr (now_utc fixture_env) \<and>
   parse_datetime fixture_env None = Inr (now_utc fixture_env) \<and>
   parse_datetime fixture_env (Some ''2024-01-15T09:00:00'')
     = Inr (mk_datetime 2024 1 15 9 0 (Some 0)) \<and>
   parse_datetime fixture_env (Some ''2024-01-15T09:00:00Z'')
     = Inr (mk_datetime 2024 1 15 9 0 (Some 0)) \<and>
   parse_datetime fixture_env (Some ''Jan 15 2024 9am'')
     = Inr (mk_datetime 2024 1 15 9 0 (Some 0)) \<and>
   parse_datetime fixture_env (Some ''2024-01-15T11:00:00+02:00'')
     = Inr (mk_datetime 2024 1 15 11 0 (Some (timedelta_of 0 2 0)))"
proof -
  have h: "iso_contract fixture_env" by (rule fixture_contract)
  have f1: "fromisoformat fixture_env ''next tuesday, maybe'' = Inl ValueError"
    by (simp add: fixture_env_def fixture_instants_def)
  have f2: "fromisoformat fixture_env (replace_Z ''next tuesday, maybe'') = Inl ValueError"
    by (simp add: fixture_env_def fixture_instants_def replace_Z_def)
  have f3: "dateutil_parse fixture_env ''next tuesday, maybe'' = Inl ValueError"
    by (simp add: fixture_env_def)
  have g1: "fromisoformat fixture_env ''2024-01-15T09:00:00''
      = Inr (mk_datetime 2024 1 15 9 0 None)"
    by (simp add: fixture_env_def fixture_instants_def)
  have z1: "fromisoformat fixture_env ''2024-01-15T09:00:00Z'' = Inl ValueError"
    by (simp add: fixture_env_def fixture_instants_def)
  have z2: "fromisoformat fixture_env (replace_Z ''2024-01-15T09:00:00Z'')
      = Inr (mk_datetime 2024 1 15 9 0 (Some 0))"
    by (simp add: fixture_env_def fixture_instants_def replace_Z_def)
  have d1: "fromisoformat fixture_env ''Jan 15 2024 9am'' = Inl ValueError"
    by (simp add: fixture_env_def fixture_instants_def)
  have d2: "fromisoformat fixture_env (replace_Z ''Jan 15 2024 9am'') = Inl ValueError"
    by (simp add: fixture_env_def fixture_instants_def replace_Z_def)
  have d3: "dateutil_parse fixture_env ''Jan 15 2024 9am''
      = Inr (mk_datetime 2024 1 15 9 0 None)"
    by (simp add: fixture_env_def)
  have o1: "fromisoformat fixture_env ''2024-01-15T11:00:00+02:00''
      = Inr (mk_datetime 2024 1 15 11 0 (Some (timedelta_of 0 2 0)))"
    by (simp add: fixture_env_def fixture_instants_def)
  have a: "parse_datetime fixture_env (Some ''next tuesday, maybe'') = Inr (now_utc fixture_env)"
    using parse_datetime_never_raises [OF h, of "Some ''next tuesday, maybe''"] f1 f2 f3 by auto
  have b: "parse_datetime fixture_env (Some []) = Inr (now_utc fixture_env)"
    using parse_datetime_never_raises [OF h, of "Some []"] by auto
  have c: "parse_datetime fixture_env None = Inr (now_utc fixture_env)"
    using parse_datetime_never_raises [OF h, of None] by auto
  have d: "parse_datetime fixture_env (Some ''2024-01-15T09:00:00'')
      = Inr (mk_datetime 2024 1 15 9 0 (Some 0))"
    using parse_datetime_never_raises [OF h, of "Some ''2024-01-15T09:00:00''"] g1
    by (auto simp: mk_datetime_def)
  have e: "parse_datetime fixture_env (Some ''2024-01-15T09:00:00Z'')
      = Inr (mk_datetime 2024 1 15 9 0 (Some 0))"
    using parse_datetime_never_raises [OF h, of "Some ''2024-01-15T09:00:00Z''"] z1 z2
    by (auto simp: mk_datetime_def)
  have f: "parse_datetime fixture_env (Some ''Jan 15 2024 9am'')
      = Inr (mk_datetime 2024 1 15 9 0 (Some 0))"
    using parse_datetime_never_raises [OF h, of "Some ''Jan 15 2024 9am''"] d1 d2 d3
    by (auto simp: mk_datetime_def)
  have g: "parse_datetime fixture_env (Some ''2024-01-15T11:00:00+02:00'')
     = Inr (mk_datetime 2024 1 15 11 0 (Some (timedelta_of 0 2 0)))"
    using parse_datetime_never_raises [OF h, of "Some ''2024-01-15T11:00:00+02:00''"] o1
    by (auto simp: mk_datetime_def)
  show ?thesis using h a b c d e f g by simp
qed

lemma library_parse_sound:
  assumes "library_parse E s = Some d"
    and "fromisoformat E' = fromisoformat E" "dateutil_parse E' = dateutil_parse E"
  shows "parse_datetime E' (Some s) = Inr d"
  using assms unfolding library_parse_def parse_datetime_def
  by (auto split: if_splits sum.splits)

lemma library_parse_now: "library_parse E s = Some d \<Longrightarrow> parse_datetime E (Some s) = Inr d"
  by (rule library_parse_sound) simp_all

lemma library_parse_later:
  "library_parse E s = Some d \<Longrightarrow> parse_datetime (later E k) (Some s) = Inr d"
  by (rule library_parse_sound) (simp_all add: later_def)

lemma library_parse_aware: "library_parse E s = Some d \<Longrightarrow> tzinfo d \<noteq> None"
  using library_parse_now parse_datetime_aware by blast

lemma fixture_library_parse:
  "map_of fixture_instants s = Some d \<Longrightarrow> library_parse fixture_env s = Some (assume_utc d)"
  by (auto simp: library_parse_def fixture_env_def fixture_instants_def)

lemma dt_lt_aware:
  "tzinfo a \<noteq> None \<Longrightarrow> tzinfo b \<noteq> None \<Longrightarrow> offset_ok a \<Longrightarrow> offset_ok b \<Longrightarrow>
     dt_lt a b = Inr (utc_us a < utc_us b)"
  by (simp add: dt_lt_def comparable_def)



lemma ebind_Inr: "ebind (Inr x) f = f x" and ebind_Inl: "ebind (Inl e) f = Inl e"
  by (simp_all add: ebind_def)

lemma getitem_Some: "getitem (Some v) = Inr v" and getitem_None: "getitem None = Inl KeyError"
  by (simp_all add: getitem_def)

lemma py_and_Inr: "py_and (Inr a) (Inr b) = Inr (a \<and> b)"
  and py_or_Inr: "py_or (Inr a) (Inr b) = Inr (a \<or> b)"
  by (simp_all add: py_and_def py_or_def ebind_def)

lemma check_time_conflict_iff:
  assumes f: "start_time mA = Some sa" "end_time mA = Some ea"
    "start_time mB = Some sb" "end_time mB = Some eb"
    and p: "library_parse E sa = Some startA" "library_parse E ea = Some endA"
    "library_parse E sb = Some startB" "library_parse E eb = Some endB"
    and o: "offset_ok startA" "offset_ok endA" "offset_ok startB" "offset_ok endB"
  shows "check_time_conflict E mA mB \<longleftrightarrow>
         utc_us startA < utc_us endB \<and> utc_us startB < utc_us endA"
proof -
  note aw = p [THEN library_parse_aware]
  have u: "assume_utc startA = startA" "assume_utc startB = startB"
    "assume_utc endA = endA" "assume_utc endB = endB"
    using aw by (simp_all add: assume_utc_aware)
  show ?thesis
    unfolding check_time_conflict_def
    by (simp add: f getitem_Some ebind_Inr library_parse_now [OF p(1)]
        library_parse_later [OF p(2)] library_parse_later [OF p(3)] library_parse_later [OF p(4)]
        u dt_lt_aware aw o py_and_Inr)
qed

text \<open>
  C4. Take two meetings whose four timestamps the library parses, so that no parse falls
  back to the clock, into datetimes with UTC offsets of less than 24 hours. Then
  \<open>check_time_conflict\<close> is true exactly when the first start is before the second end and the
  second start before the first end; it gives the same answer with the two meetings
  exchanged; and two meetings that touch (the end of one is the start of the other) do not
  conflict.
\<close>

theorem check_time_conflict_overlap:
  "start_time mA = Some sa \<and> end_time mA = Some ea \<and>
   start_time mB = Some sb \<and> end_time mB = Some eb \<and>
   library_parse E sa = Some startA \<and> library_parse E ea = Some endA \<and>
   library_parse E sb = Some startB \<and> library_parse E eb = Some endB \<and>
   offset_ok startA \<and> offset_ok endA \<and> offset_ok startB \<and> offset_ok endB \<longrightarrow>
     (check_time_conflict E mA mB \<longleftrightarrow>
        utc_us startA < utc_us endB \<and> utc_us startB < utc_us endA) \<and>
     check_time_conflict E mA mB = check_time_conflict E mB mA \<and>
     (utc_us endA = utc_us startB \<longrightarrow> \<not> check_time_conflict E mA mB)"
proof (intro impI, elim conjE)
  assume f: "start_time mA = Some sa" "end_time mA = Some ea"
    "start_time mB = Some sb" "end_time mB = Some eb"
    and p: "library_parse E sa = Some startA" "library_parse E ea = Some endA"
    "library_parse E sb = Some startB" "library_parse E eb = Some endB"
    and o: "offset_ok startA" "offset_ok endA" "offset_ok startB" "offset_ok endB"
  have ab: "check_time_conflict E mA mB \<longleftrightarrow>
        utc_us startA < utc_us endB \<and> utc_us startB < utc_us endA"
    by (rule check_time_conflict_iff [OF f p o])
  have ba: "check_time_conflict E mB mA \<longleftrightarrow>
        utc_us startB < utc_us endA \<and> utc_us startA < utc_us endB"
    by (rule check_time_conflict_iff [OF f(3,4) f(1,2) p(3,4) p(1,2) o(3,4) o(1,2)])
  show "(check_time_conflict E mA mB \<longleftrightarrow>
        utc_us startA < utc_us endB \<and> utc_us startB < utc_us endA) \<and>
     check_time_conflict E mA mB = check_time_conflict E mB mA \<and>
     (utc_us endA = utc_us startB \<longrightarrow> \<not> check_time_conflict E mA mB)"
    using ab ba by auto
qed

lemma utc_mk: "utc_us (mk_datetime y mo d h mi (Some 0)) = timedelta_of (ymd2ord y mo d) h mi"
  by (simp add: utc_us_def mk_datetime_def)


lemma offset_ok_mk: "offset_ok (mk_datetime y mo d h mi (Some 0))"
  "offset_ok (mk_datetime y mo d h mi None)"
  by (simp_all add: offset_ok_def mk_datetime_def)

lemma fixture_library_naive:
  "library_parse fixture_env ''2024-01-15T09:00:00'' = Some (mk_datetime 2024 1 15 9 0 (Some 0))"
  "library_parse fixture_env ''2024-01-15T09:30:00'' = Some (mk_datetime 2024 1 15 9 30 (Some 0))"
  "library_parse fixture_env ''2024-01-15T10:00:00'' = Some (mk_datetime 2024 1 15 10 0 (Some 0))"
  "library_parse fixture_env ''2024-01-15T10:30:00'' = Some (mk_datetime 2024 1 15 10 30 (Some 0))"
  "library_parse fixture_env ''2024-01-15T11:00:00'' = Some (mk_datetime 2024 1 15 11 0 (Some 0))"
  "library_parse fixture_env ''2024-01-15T12:00:00'' = Some (mk_datetime 2024 1 15 12 0 (Some 0))"
  by (simp_all add: fixture_library_parse fixture_instants_def assume_utc_def mk_datetime_def)


lemma meeting_a_fields:
  "mid meeting_a = Some ''m1''" "title meeting_a = Some ''Sprint planning''"
  "participants meeting_a = Some [''alice'', ''bob'', ''carol'']"
  "start_time meeting_a = Some ''2024-01-15T09:00:00''"
  "end_time meeting_a = Some ''2024-01-15T10:00:00''"
  "agenda meeting_a = Some ''Plan the sprint and assign owners''"
  "meeting_type meeting_a = Some ''planning''"
  "effectiveness_score meeting_a = Some 0"
  by (simp_all add: meeting_a_def mk_meeting_def)

lemma meeting_b_fields:
  "mid meeting_b = Some ''m2''" "title meeting_b = Some ''Design review''"
  "participants meeting_b = Some [''alice'', ''bob'']"
  "start_time meeting_b = Some ''2024-01-15T10:00:00''"
  "end_time meeting_b = Some ''2024-01-15T11:00:00''"
  by (simp_all add: meeting_b_def mk_meeting_def)

lemma meeting_c_fields:
  "mid meeting_c = Some ''m3''" "title meeting_c = Some ''Customer call''"
  "participants meeting_c = Some [''carol'']"
  "start_time meeting_c = Some ''2024-01-15T09:30:00''"
  "end_time meeting_c = Some ''2024-01-15T10:30:00''"
  by (simp_all add: meeting_c_def mk_meeting_def)

theorem check_time_conflict_overlap_witness:
  "library_parse fixture_env ''2024-01-15T09:00:00'' = Some (mk_datetime 2024 1 15 9 0 (Some 0)) \<and>
   library_parse fixture_env ''2024-01-15T10:00:00'' = Some (mk_datetime 2024 1 15 10 0 (Some 0)) \<and>
   offset_ok (mk_datetime 2024 1 15 9 0 (Some 0)) \<and>
   \<not> check_time_conflict fixture_env meeting_a meeting_b \<and>
   \<not> check_time_conflict fixture_env meeting_b meeting_a \<and>
   check_time_conflict fixture_env meeting_a meeting_c \<and>
   check_time_conflict fixture_env meeting_c meeting_a"
proof -
  note ab = check_time_conflict_overlap [of meeting_a "''2024-01-15T09:00:00''"
      "''2024-01-15T10:00:00''" meeting_b "''2024-01-15T10:00:00''" "''2024-01-15T11:00:00''"
      fixture_env "mk_datetime 2024 1 15 9 0 (Some 0)" "mk_datetime 2024 1 15 10 0 (Some 0)"
      "mk_datetime 2024 1 15 10 0 (Some 0)" "mk_datetime 2024 1 15 11 0 (Some 0)", rule_format]
  note ac = check_time_conflict_overlap [of meeting_a "''2024-01-15T09:00:00''"
      "''2024-01-15T10:00:00''" meeting_c "''2024-01-15T09:30:00''" "''2024-01-15T10:30:00''"
      fixture_env "mk_datetime 2024 1 15 9 0 (Some 0)" "mk_datetime 2024 1 15 10 0 (Some 0)"
      "mk_datetime 2024 1 15 9 30 (Some 0)" "mk_datetime 2024 1 15 10 30 (Some 0)", rule_format]
  have hab: "start_time meeting_a = Some ''2024-01-15T09:00:00'' \<and>
      end_time meeting_a = Some ''2024-01-15T10:00:00'' \<and>
      start_time meeting_b = Some ''2024-01-15T10:00:00'' \<and>
      end_time meeting_b = Some ''2024-01-15T11:00:00'' \<and>
      library_parse fixture_env ''2024-01-15T09:00:00'' = Some (mk_datetime 2024 1 15 9 0 (Some 0)) \<and>
      library_parse fixture_env ''2024-01-15T10:00:00'' = Some (mk_datetime 2024 1 15 10 0 (Some 0)) \<and>
      library_parse fixture_env ''2024-01-15T10:00:00'' = Some (mk_datetime 2024 1 15 10 0 (Some 0)) \<and>
      library_parse fixture_env ''2024-01-15T11:00:00'' = Some (mk_datetime 2024 1 15 11 0 (Some 0)) \<and>
      offset_ok (mk_datetime 2024 1 15 9 0 (Some 0)) \<and> offset_ok (mk_datetime 2024 1 15 10 0 (Some 0)) \<and>
      offset_ok (mk_datetime 2024 1 15 10 0 (Some 0)) \<and> offset_ok (mk_datetime 2024 1 15 11 0 (Some 0))"
    by (simp add: meeting_a_fields meeting_b_fields fixture_library_naive offset_ok_mk)
  have hac: "start_time meeting_a = Some ''2024-01-15T09:00:00'' \<and>
      end_time meeting_a = Some ''2024-01-15T10:00:00'' \<and>
      start_time meeting_c = Some ''2024-01-15T09:30:00'' \<and>
      end_time meeting_c = Some ''2024-01-15T10:30:00'' \<and>
      library_parse fixture_env ''2024-01-15T09:00:00'' = Some (mk_datetime 2024 1 15 9 0 (Some 0)) \<and>
      library_parse fixture_env ''2024-01-15T10:00:00'' = Some (mk_datetime 2024 1 15 10 0 (Some 0)) \<and>
      library_parse fixture_env ''2024-01-15T09:30:00'' = Some (mk_datetime 2024 1 15 9 30 (Some 0)) \<and>
      library_parse fixture_env ''2024-01-15T10:30:00'' = Some (mk_datetime 2024 1 15 10 30 (Some 0)) \<and>
      offset_ok (mk_datetime 2024 1 15 9 0 (Some 0)) \<and> offset_ok (mk_datetime 2024 1 15 10 0 (Some 0)) \<and>
      offset_ok (mk_datetime 2024 1 15 9 30 (Some 0)) \<and> offset_ok (mk_datetime 2024 1 15 10 30 (Some 0))"
    by (simp add: meeting_a_fields meeting_c_fields fixture_library_naive offset_ok_mk)
  have r1: "\<not> check_time_conflict fixture_env meeting_a meeting_b"
    "\<not> check_time_conflict fixture_env meeting_b meeting_a"
    using ab [OF hab] by (auto simp: utc_mk timedelta_of_def)
  have r2: "check_time_conflict fixture_env meeting_a meeting_c"
    "check_time_conflict fixture_env meeting_c meeting_a"
    using ac [OF hac] by (auto simp: utc_mk timedelta_of_def)
  show ?thesis
    using r1 r2 by (simp add: fixture_library_naive offset_ok_mk)
qed

subsection \<open>Evaluating the fixture\<close>



lemma fixture_start_a: "start_dt fixture_env meeting_a = Inr (mk_datetime 2024 1 15 9 0 (Some 0))"
  by (simp add: start_dt_def meeting_a_fields ebind_Inr getitem_Some fixture_parse
      fixture_instants_def assume_utc_def mk_datetime_def)

lemma fixture_end_a: "end_dt fixture_env meeting_a = Inr (mk_datetime 2024 1 15 10 0 (Some 0))"
  by (simp add: end_dt_def meeting_a_fields ebind_Inr getitem_Some fixture_parse
      fixture_instants_def assume_utc_def mk_datetime_def)

lemma dur_a: "dt_sub (mk_datetime 2024 1 15 10 0 (Some 0)) (mk_datetime 2024 1 15 9 0 (Some 0)) = Inr 3600000000"
  by (simp add: dt_sub_def comparable_def offset_ok_def mk_datetime_def utc_us_def
      timedelta_of_def)

lemma hour_a: "hour (mk_datetime 2024 1 15 9 0 (Some 0)) = 9"
  by (simp add: hour_def mk_datetime_def timedelta_of_def ymd2ord_def days_before_year_def days_before_month_def is_leap_def Let_def)

lemma find_a: "find_meeting (meetings fixture_store) ''m1'' = Inr (Some meeting_a)"
  by (simp add: fixture_store_def meeting_a_fields ebind_Inr getitem_Some)


lemma round_78: "py_round2 (78 / 10) = 78 / 10"
  by (simp add: py_round2_def round_half_even_def)

lemma scores_a:
  "duration_score_of (total_seconds 3600000000 / 60) = 10"
  "participant_score_of (length [''alice'', ''bob'', ''carol'']) = 10"
  "time_score_of 9 = 10"
  "type_score_of (Some ''planning'') = 9"
  "agenda_score_of (Some ''Plan the sprint and assign owners'') = 10"
  by (simp_all add: duration_score_of_def total_seconds_def participant_score_of_def
      time_score_of_def type_score_of_def type_scores_def agenda_score_of_def)


lemma stored_a: "stored_score meeting_a = 0"
  by (simp add: stored_score_def meeting_a_fields)

lemma fixture_score_a: "score_meeting_effectiveness fixture_env fixture_store ''m1'' =
  Inr \<lparr>eff_status = ''success'', eff_meeting_id = ''m1'', eff_meeting_title = ''Sprint planning'',
       eff_score = 78 / 10,
       score_breakdown = [(''duration_score'', 10), (''participant_score'', 10), (''time_score'', 10),
      (''type_score'', 9), (''agenda_score'', 10)],
       improvement_suggestions = [], ai_analysis = True\<rparr>"
proof -
  have "min 10 (max 0 (0 + 10 * (2 / 10) + 10 * (15 / 100) + 10 * (15 / 100) + 9 * (2 / 10)
      + 10 * (1 / 10))) = (78 / 10 :: real)"
    by simp
  then show ?thesis
    unfolding score_meeting_effectiveness_def find_a
    by (simp only: ebind_Inr getitem_Some fixture_start_a fixture_end_a dur_a hour_a Let_def
        stored_a meeting_a_fields scores_a round_78 option.case if_False if_True append_Nil
        append_Nil2 less_irrefl) simp
qed



subsection \<open>Effectiveness score\<close>

lemma round_half_even_of_int: "round_half_even (of_int n) = n"
  by (simp add: round_half_even_def Let_def)

lemma round_half_even_le: 
  assumes "x \<le> of_int n" shows "round_half_even x \<le> n"
proof -
  have f: "\<lfloor>x\<rfloor> \<le> n" using assms by (simp add: floor_le_iff) 
  show ?thesis
  proof (cases "\<lfloor>x\<rfloor> = n")
    case True
    then have "x - of_int \<lfloor>x\<rfloor> \<le> 0" using assms by simp
    then show ?thesis using True by (simp add: round_half_even_def Let_def)
  next
    case False
    then have "\<lfloor>x\<rfloor> + 1 \<le> n" using f by simp
    then show ?thesis by (auto simp: round_half_even_def Let_def)
  qed
qed

lemma py_round2_le:
  assumes "x \<le> of_int n / 100" shows "py_round2 x \<le> of_int n / 100"
proof -
  have "x * 100 \<le> of_int n" using assms by simp
  then have "round_half_even (x * 100) \<le> n" by (rule round_half_even_le)
  then show ?thesis unfolding py_round2_def by (simp add: divide_right_mono)
qed

lemma py_round2_hundredths: "py_round2 (of_int n / 100) = of_int n / 100"
  by (simp add: py_round2_def round_half_even_of_int)

lemma duration_score_le: "duration_score_of x \<le> 10"
  by (simp add: duration_score_of_def)
lemma participant_score_le: "participant_score_of n \<le> 10"
  by (simp add: participant_score_of_def)
lemma time_score_le: "time_score_of h \<le> 10"
  by (simp add: time_score_of_def)
lemma agenda_score_le: "agenda_score_of a \<le> 10"
  by (simp add: agenda_score_of_def Let_def)
lemma type_score_le: "type_score_of ty \<le> 9"
  by (simp add: type_score_of_def type_scores_def split: option.splits)


lemma weighted_sum_le:
  fixes d p t ty a :: real
  assumes "d \<le> 10" "p \<le> 10" "t \<le> 10" "ty \<le> 9" "a \<le> 10"
  shows "min 10 (max 0 (0 + d * (2 / 10) + p * (15 / 100) + t * (15 / 100) + ty * (2 / 10) + a * (1 / 10))) \<le> 780 / 100"
proof -
  have "0 + d * (2 / 10) + p * (15 / 100) + t * (15 / 100) + ty * (2 / 10) + a * (1 / 10)
      \<le> 780 / 100"
    using assms by simp
  then show ?thesis by (auto simp: min_def max_def)
qed

lemma score_result:
  assumes "find_meeting (meetings D) meeting_id = Inr (Some m)"
    and "stored_score m = 0"
    and "score_meeting_effectiveness E D meeting_id = Inr r"
  obtains td and ps :: "string list" and start where
    "eff_score r = py_round2 (min 10 (max 0 (0
          + duration_score_of (total_seconds td / 60) * (2 / 10)
          + participant_score_of (length ps) * (15 / 100)
          + time_score_of (hour start) * (15 / 100)
          + type_score_of (meeting_type m) * (2 / 10)
          + agenda_score_of (agenda m) * (1 / 10))))"
    "score_breakdown r =
        [(''duration_score'', duration_score_of (total_seconds td / 60)),
         (''participant_score'', participant_score_of (length ps)),
         (''time_score'', time_score_of (hour start)),
         (''type_score'', type_score_of (meeting_type m)),
         (''agenda_score'', agenda_score_of (agenda m))]"
proof -
  from assms obtain e s td ps t where
    "end_dt E m = Inr e" "start_dt E m = Inr s" "dt_sub e s = Inr td"
    "getitem (participants m) = Inr ps" "getitem (title m) = Inr t"
    unfolding score_meeting_effectiveness_def
    by (auto simp: ebind_def Let_def split: sum.splits)
  with assms have
    "eff_score r = py_round2 (min 10 (max 0 (0
          + duration_score_of (total_seconds td / 60) * (2 / 10)
          + participant_score_of (length ps) * (15 / 100)
          + time_score_of (hour s) * (15 / 100)
          + type_score_of (meeting_type m) * (2 / 10)
          + agenda_score_of (agenda m) * (1 / 10))))"
    "score_breakdown r =
        [(''duration_score'', duration_score_of (total_seconds td / 60)),
         (''participant_score'', participant_score_of (length ps)),
         (''time_score'', time_score_of (hour s)),
         (''type_score'', type_score_of (meeting_type m)),
         (''agenda_score'', agenda_score_of (agenda m))]"
    unfolding score_meeting_effectiveness_def
    by (auto simp: ebind_def Let_def)
  then show ?thesis by (rule that)
qed

text \<open>
  C1, as amended. For a meeting whose stored effectiveness score is 0 (the historical factor
  is absent), the score that \<open>score_meeting_effectiveness\<close> returns is at most 7.8. The
  sub-scores 10 (duration), 10 (participants), 10 (time of day), 9 (type) and 10 (agenda)
  give exactly 0.2*10 + 0.15*10 + 0.15*10 + 0.2*9 + 0.1*10 = 7.8, and a meeting with these
  sub-scores exists.
\<close>

theorem effectiveness_without_history:
  "(find_meeting (meetings D) meeting_id = Inr (Some m) \<and> stored_score m = 0 \<and>
    score_meeting_effectiveness E D meeting_id = Inr r \<longrightarrow>
      eff_score r \<le> 78 / 10 \<and> (score_breakdown r = best_breakdown \<longrightarrow> eff_score r = 78 / 10)) \<and>
   (\<exists>E' D' i' m' r'.
      find_meeting (meetings D') i' = Inr (Some m') \<and> stored_score m' = 0 \<and>
      score_meeting_effectiveness E' D' i' = Inr r' \<and>
      score_breakdown r' = best_breakdown \<and> eff_score r' = 78 / 10)"
proof -
  have bound: "eff_score r \<le> 78 / 10 \<and> (score_breakdown r = best_breakdown \<longrightarrow> eff_score r = 78 / 10)"
    if h: "find_meeting (meetings D) meeting_id = Inr (Some m)" "stored_score m = 0"
      "score_meeting_effectiveness E D meeting_id = Inr r" for E D meeting_id m r
  proof -
    obtain td and ps :: "string list" and start where
      sc: "eff_score r = py_round2 (min 10 (max 0 (0
          + duration_score_of (total_seconds td / 60) * (2 / 10)
          + participant_score_of (length ps) * (15 / 100)
          + time_score_of (hour start) * (15 / 100)
          + type_score_of (meeting_type m) * (2 / 10)
          + agenda_score_of (agenda m) * (1 / 10))))"
      and bd: "score_breakdown r =
        [(''duration_score'', duration_score_of (total_seconds td / 60)),
         (''participant_score'', participant_score_of (length ps)),
         (''time_score'', time_score_of (hour start)),
         (''type_score'', type_score_of (meeting_type m)),
         (''agenda_score'', agenda_score_of (agenda m))]"
      by (rule score_result [OF h])
    have "eff_score r \<le> of_int 780 / 100"
      unfolding sc
      by (rule py_round2_le)
        (use weighted_sum_le [OF duration_score_le participant_score_le time_score_le
            type_score_le agenda_score_le] in simp)
    then have le: "eff_score r \<le> 78 / 10" by simp
    have eq: "eff_score r = 78 / 10" if "score_breakdown r = best_breakdown"
    proof -
      from that bd have v: "duration_score_of (total_seconds td / 60) = 10"
        "participant_score_of (length ps) = 10" "time_score_of (hour start) = 10"
        "type_score_of (meeting_type m) = 9" "agenda_score_of (agenda m) = 10"
        by (simp_all add: best_breakdown_def)
      have "eff_score r = py_round2 (of_int 780 / 100)"
        unfolding sc v by simp
      also have "\<dots> = of_int 780 / 100" by (rule py_round2_hundredths)
      finally show ?thesis by simp
    qed
    show ?thesis using le eq by blast
  qed
  have ex: "\<exists>E' D' i' m' r'.
      find_meeting (meetings D') i' = Inr (Some m') \<and> stored_score m' = 0 \<and>
      score_meeting_effectiveness E' D' i' = Inr r' \<and>
      score_breakdown r' = best_breakdown \<and> eff_score r' = 78 / 10"
    using find_a stored_a fixture_score_a
    by (intro exI [of _ fixture_env] exI [of _ fixture_store] exI [of _ "''m1''"]
        exI [of _ meeting_a]) (simp add: best_breakdown_def)
  show ?thesis using bound ex by blast
qed


theorem effectiveness_without_history_witness:
  "find_meeting (meetings fixture_store) ''m1'' = Inr (Some meeting_a) \<and>
   stored_score meeting_a = 0 \<and>
   (\<exists>r. score_meeting_effectiveness fixture_env fixture_store ''m1'' = Inr r \<and>
        score_breakdown r = best_breakdown \<and> eff_score r \<le> 78 / 10 \<and> eff_score r = 78 / 10)"
proof -
  obtain r where r: "score_meeting_effectiveness fixture_env fixture_store ''m1'' = Inr r"
    and bd: "score_breakdown r = best_breakdown"
    using fixture_score_a by (simp add: best_breakdown_def)
  from effectiveness_without_history [of fixture_store "''m1''" meeting_a fixture_env r,
      THEN conjunct1] find_a stored_a r bd
  have "eff_score r \<le> 78 / 10 \<and> eff_score r = 78 / 10" by blast
  with find_a stored_a r bd show ?thesis by blast
qed

text \<open>
  C1 as stated fails: the meeting \<open>m1\<close> of the fixture has the sub-scores 10, 10, 10, 9, 10
  and no historical score, and its effectiveness score is 7.8, not 8.0.
\<close>

theorem effectiveness_best_counterexample:
  "score_meeting_effectiveness fixture_env fixture_store ''m1'' =
     Inr \<lparr>eff_status = ''success'', eff_meeting_id = ''m1'',
          eff_meeting_title = ''Sprint planning'', eff_score = 78 / 10,
          score_breakdown =
            [(''duration_score'', 10), (''participant_score'', 10), (''time_score'', 10),
             (''type_score'', 9), (''agenda_score'', 10)],
          improvement_suggestions = [], ai_analysis = True\<rparr> \<and>
   stored_score meeting_a = 0 \<and> (78 / 10 :: real) < 8"
  using fixture_score_a stored_a by simp


subsection \<open>Workload balance\<close>


lemma py_max_zeros:
  fixes xs :: "real list"
  assumes "xs \<noteq> []" "\<forall>x\<in>set xs. x = 0"
  shows "py_max xs = Inr 0" "py_min xs = Inr 0"
proof -
  have f: "fold max ys (0::real) = 0" if "\<forall>y\<in>set ys. y = 0" for ys
    using that by (induction ys) auto
  have g: "fold min ys (0::real) = 0" if "\<forall>y\<in>set ys. y = 0" for ys
    using that by (induction ys) auto
  from assms obtain x rest where xs: "xs = x # rest" by (cases xs) auto
  with assms have "x = 0" "\<forall>y\<in>set rest. y = 0" by auto
  then show "py_max xs = Inr 0" "py_min xs = Inr 0"
    using f g xs by (simp_all add: py_max_def py_min_def)
qed

lemma balance_of_zeros:
  assumes "xs \<noteq> []" "\<forall>x\<in>set xs. x = 0"
  shows "balance_of xs = Inl ZeroDivisionError"
  using assms py_max_zeros [OF assms]
  by (simp add: balance_of_def ebind_Inr ebind_Inl py_div_def)

lemma member_workload_idle:
  assumes "get_user_meetings D member = Inr []"
    and "get_user_preferences (users D) member = Inr u"
  shows "\<exists>w. member_workload E D member = Inr w \<and> workload_score w = 0"
  using assms by (simp add: member_workload_def ebind_Inr)

lemma alist_update_set: "set (AList.update k v al) \<subseteq> insert (k, v) (set al)"
  by (induction al) auto

lemma team_workload_loop_idle:
  assumes "\<forall>member\<in>set ms. get_user_meetings D member = Inr [] \<and>
             (\<exists>u. get_user_preferences (users D) member = Inr u)"
    and "\<forall>p\<in>set acc. workload_score (snd p) = 0"
  shows "\<exists>tw. team_workload_loop E D ms acc = Inr tw \<and>
           (\<forall>p\<in>set tw. workload_score (snd p) = 0) \<and> (ms \<noteq> [] \<or> acc \<noteq> [] \<longrightarrow> tw \<noteq> [])"
  using assms
proof (induction ms arbitrary: acc)
  case Nil
  then show ?case by simp
next
  case (Cons member rest)
  then obtain w where w: "member_workload E D member = Inr w" "workload_score w = 0"
    using member_workload_idle [of D member _ E] by fastforce
  have acc': "\<forall>p\<in>set (AList.update member w acc). workload_score (snd p) = 0"
    using Cons.prems(2) w(2) alist_update_set [of member w acc] by fastforce
  have ne: "AList.update member w acc \<noteq> []"
    by (cases acc) auto
  from Cons.IH [OF _ acc'] Cons.prems(1) ne
  show ?case by (simp add: w ebind_Inr)
qed


text \<open>
  C2. The claim asks for the balance score 1 when no member of a non-empty team has a
  meeting. The code does otherwise: every workload score is 0, the guard of the balance
  score tests only that the list of scores is not empty, and the division by the maximum 0
  raises \<^verbatim>\<open>ZeroDivisionError\<close>.
\<close>

theorem workload_balance_divides_by_zero:
  assumes "team_members \<noteq> []"
    and "\<forall>member\<in>set team_members. get_user_meetings D member = Inr [] \<and>
           (\<exists>u. get_user_preferences (users D) member = Inr u)"
  shows "calculate_workload_balance E D team_members = Inl ZeroDivisionError"
proof -
  from team_workload_loop_idle [OF assms(2), of "[]" E] assms(1)
  obtain tw where tw: "team_workload_loop E D team_members [] = Inr tw"
    "\<forall>p\<in>set tw. workload_score (snd p) = 0" "tw \<noteq> []"
    by auto
  have "balance_of (map (\<lambda>p. workload_score (snd p)) tw) = Inl ZeroDivisionError"
    using tw(2,3) by (intro balance_of_zeros) auto
  then show ?thesis
    unfolding calculate_workload_balance_def tw(1) ebind_Inr Let_def
    by (simp add: ebind_Inl)
qed

lemma erin_idle:
  "get_user_meetings fixture_store ''erin'' = Inr []"
  "get_user_preferences (users fixture_store) ''erin''
     = Inr (Some \<lparr>user_id = Some ''erin'', preferences = Some \<lparr>max_daily_meetings = Some 5\<rparr>\<rparr>)"
  by (simp_all add: get_user_meetings_def fixture_store_def fixture_users_def meeting_a_def
      meeting_b_def meeting_c_def mk_meeting_def ebind_Inr getitem_Some)

theorem workload_balance_divides_by_zero_witness:
  "get_user_meetings fixture_store ''erin'' = Inr [] \<and>
   calculate_workload_balance fixture_env fixture_store [''erin''] = Inl ZeroDivisionError"
  using workload_balance_divides_by_zero [of "[''erin'']" fixture_store fixture_env] erin_idle
  by simp


subsection \<open>Optimal slots\<close>

lemma hour_shift:
  fixes w k H :: int
  assumes "H \<noteq> 0"
  shows "((w + (k * 24 + 9) * H) div H) mod 24 = (w div H + 9) mod 24"
proof -
  have "(w + (k * 24 + 9) * H) div H = w div H + (k * 24 + 9)"
    using assms by simp
  moreover have "(a + (k * 24 + 9)) mod 24 = (a + 9) mod 24" for a :: int
  proof -
    have "a + (k * 24 + 9) = (a + 9) + k * 24" by simp
    then show ?thesis by (simp only: mod_mult_self1)
  qed
  ultimately show ?thesis by (simp only:)
qed

lemma hour_slot_start: "hour (slot_start_of E i) = (hour (now_naive E) + 9) mod 24"
proof -
  have w: "wall (slot_start_of E i) = wall (now_naive E) + ((i + 1) * 24 + 9) * 3600000000"
    unfolding slot_start_of_def shift_def timedelta_of_def by simp
  have "hour (slot_start_of E i)
      = ((wall (now_naive E) + ((i + 1) * 24 + 9) * 3600000000) div 3600000000) mod 24"
    by (simp only: hour_def w)
  also have "\<dots> = (wall (now_naive E) div 3600000000 + 9) mod 24"
    by (rule hour_shift) simp
  also have "\<dots> = ((wall (now_naive E) div 3600000000) mod 24 + 9) mod 24"
    by (rule mod_add_left_eq [symmetric])
  also have "\<dots> = (hour (now_naive E) + 9) mod 24"
    by (simp only: hour_def)
  finally show ?thesis .
qed

lemma dt_add_value: "dt_add d td = Inr d' \<Longrightarrow> d' = shift d td"
  by (simp add: dt_add_def split: if_splits)

lemma add_minutes_value: "add_minutes d n = Inr d' \<Longrightarrow> d' = shift d (n * 60000000)"
  by (auto simp: add_minutes_def timedelta_minutes_def ebind_def dest: dt_add_value
      split: if_splits)

lemma example_slot_value:
  assumes "example_slot E duration (now_naive E) i = Inr sl"
  shows "os_start_time sl = isoformat E (slot_start_of E i) \<and>
         os_end_time sl = isoformat E (shift (slot_start_of E i) (duration * 60000000)) \<and>
         os_duration_minutes sl = duration \<and> ai_score sl = 10 - i \<and> recommended sl = (i < 2)"
proof -
  from assms obtain s e where s: "dt_add (now_naive E) (timedelta_of (i + 1) 9 0) = Inr s"
    and e: "add_minutes s duration = Inr e"
    and sl: "sl = \<lparr>os_start_time = isoformat E s, os_end_time = isoformat E e,
            os_duration_minutes = duration, ai_score = 10 - i, recommended = (i < 2)\<rparr>"
    unfolding example_slot_def by (auto simp: ebind_def split: sum.splits)
  show ?thesis
    using dt_add_value [OF s] add_minutes_value [OF e] sl by (simp add: slot_start_of_def)
qed

lemma example_slots_value:
  assumes "example_slots E duration (now_naive E) is = Inr sls"
  shows "length sls = length is \<and>
         map ai_score sls = map (\<lambda>i. 10 - i) is \<and>
         map recommended sls = map (\<lambda>i. i < 2) is \<and>
         map os_duration_minutes sls = map (\<lambda>i. duration) is \<and>
         map os_start_time sls = map (\<lambda>i. isoformat E (slot_start_of E i)) is \<and>
         map os_end_time sls
           = map (\<lambda>i. isoformat E (shift (slot_start_of E i) (duration * 60000000))) is"
  using assms
proof (induction "is" arbitrary: sls)
  case Nil
  then show ?case by simp
next
  case (Cons i rest)
  from Cons.prems obtain sl sls' where
    a: "example_slot E duration (now_naive E) i = Inr sl"
    and b: "example_slots E duration (now_naive E) rest = Inr sls'"
    and c: "sls = sl # sls'"
    by (auto simp: ebind_def split: sum.splits)
  show ?case
    using example_slot_value [OF a] Cons.IH [OF b] c by simp
qed

lemma example_slot_returns:
  assumes "min_wall \<le> wall d" "0 \<le> i" "0 \<le> duration" "timedelta_ok (duration * 60000000)"
    and "wall d + timedelta_of (i + 1) 9 0 + duration * 60000000 \<le> max_wall"
  shows "\<exists>sl. example_slot E duration d i = Inr sl"
proof -
  have p: "0 \<le> timedelta_of (i + 1) 9 0"
    using assms(2) by (simp add: timedelta_of_def)
  have q: "0 \<le> duration * 60000000" using assms(3) by simp
  have s: "dt_add d (timedelta_of (i + 1) 9 0) = Inr (shift d (timedelta_of (i + 1) 9 0))"
    using assms(1,5) p q by (simp add: dt_add_def)
  have e: "add_minutes (shift d (timedelta_of (i + 1) 9 0)) duration
      = Inr (shift (shift d (timedelta_of (i + 1) 9 0)) (duration * 60000000))"
    using assms(1,4,5) p q
    by (simp add: add_minutes_def timedelta_minutes_def ebind_Inr dt_add_def shift_def)
  show ?thesis
    unfolding example_slot_def by (simp add: s e ebind_Inr)
qed

lemma fixture_first_slot: "slot_start_of fixture_env 0 = mk_datetime 2024 1 2 23 30 None"
  by (simp add: slot_start_of_def now_naive_def fixture_env_def shift_def mk_datetime_def
      utc_us_def timedelta_of_def ymd2ord_def days_before_year_def days_before_month_def
      is_leap_def)

lemma fixture_first_slot_text:
  "isoformat fixture_env (mk_datetime 2024 1 2 23 30 None) = ''2024-01-02T23:30:00''"
  by (simp add: fixture_env_def fixture_instants_def mk_datetime_def timedelta_of_def
      ymd2ord_def days_before_year_def days_before_month_def is_leap_def)

lemma fixture_now_hour: "hour (now_naive fixture_env) = 14"
  by (simp add: hour_def now_naive_def fixture_env_def mk_datetime_def
      utc_us_def timedelta_of_def ymd2ord_def days_before_year_def days_before_month_def
      is_leap_def)

lemma fixture_now_wall: "wall (now_naive fixture_env) = 63839802600000000"
  by (simp add: now_naive_def fixture_env_def mk_datetime_def
      utc_us_def timedelta_of_def ymd2ord_def days_before_year_def days_before_month_def
      is_leap_def)

text \<open>
  C3. \<open>find_optimal_slots\<close> answers with \<^verbatim>\<open>HTTPException(500)\<close> when a date overflows, and
  otherwise with five slots that carry the scores 10, 9, 8, 7, 6 and the flags true, true,
  false, false, false, whatever the participants; for a duration from 0 that a
  \<^verbatim>\<open>timedelta\<close> holds and a clock that leaves room for five days, nine hours and the duration
  it returns. The starts are not at 09:00, as the claim and the comment in the code say:
  slot \<open>i\<close> starts \<open>i + 1\<close> days and nine hours after the current local time, so its hour is
  the current hour plus 9 modulo 24.
\<close>

theorem optimal_slots_nine_hours_after_now:
  "(find_optimal_slots E req = Inl (HTTPException 500) \<or>
    (\<exists>r. find_optimal_slots E req = Inr r \<and>
       or_participants r = osr_participants req \<and>
       length (optimal_slots r) = 5 \<and>
       map ai_score (optimal_slots r) = [10, 9, 8, 7, 6] \<and>
       map recommended (optimal_slots r) = [True, True, False, False, False] \<and>
       map os_duration_minutes (optimal_slots r) = replicate 5 (osr_duration req) \<and>
       map os_start_time (optimal_slots r)
         = map (\<lambda>i. isoformat E (slot_start_of E i)) [0, 1, 2, 3, 4])) \<and>
   (min_wall \<le> wall (now_naive E) \<and> 0 \<le> osr_duration req \<and>
    timedelta_ok (osr_duration req * 60000000) \<and>
    wall (now_naive E) + timedelta_of 5 9 0 + osr_duration req * 60000000 \<le> max_wall \<longrightarrow>
      (\<exists>r. find_optimal_slots E req = Inr r)) \<and>
   hour (slot_start_of E i) = (hour (now_naive E) + 9) mod 24"
proof -
  let ?body = "example_slots E (osr_duration req) (now_naive E) [0, 1, 2, 3, 4]"
  have a: "find_optimal_slots E req = Inl (HTTPException 500) \<or>
    (\<exists>r. find_optimal_slots E req = Inr r \<and>
       or_participants r = osr_participants req \<and>
       length (optimal_slots r) = 5 \<and>
       map ai_score (optimal_slots r) = [10, 9, 8, 7, 6] \<and>
       map recommended (optimal_slots r) = [True, True, False, False, False] \<and>
       map os_duration_minutes (optimal_slots r) = replicate 5 (osr_duration req) \<and>
       map os_start_time (optimal_slots r)
         = map (\<lambda>i. isoformat E (slot_start_of E i)) [0, 1, 2, 3, 4])"
  proof (cases ?body)
    case (Inl e)
    then show ?thesis by (simp add: find_optimal_slots_def)
  next
    case (Inr sls)
    from example_slots_value [OF Inr] Inr show ?thesis
      by (simp add: find_optimal_slots_def numeral_eq_Suc)
  qed
  have b: "\<exists>r. find_optimal_slots E req = Inr r"
    if h: "min_wall \<le> wall (now_naive E)" "0 \<le> osr_duration req"
      "timedelta_ok (osr_duration req * 60000000)"
      "wall (now_naive E) + timedelta_of 5 9 0 + osr_duration req * 60000000 \<le> max_wall"
  proof -
    have ex: "\<exists>sl. example_slot E (osr_duration req) (now_naive E) i = Inr sl"
      if "0 \<le> i" "i \<le> 4" for i
    proof (rule example_slot_returns)
      show "wall (now_naive E) + timedelta_of (i + 1) 9 0 + osr_duration req * 60000000
          \<le> max_wall"
        using h(4) that(2) by (simp add: timedelta_of_def)
    qed (use h that in simp_all)
    obtain s0 where s0: "example_slot E (osr_duration req) (now_naive E) 0 = Inr s0"
      using ex [of 0] by auto
    obtain s1 where s1: "example_slot E (osr_duration req) (now_naive E) 1 = Inr s1"
      using ex [of 1] by auto
    obtain s2 where s2: "example_slot E (osr_duration req) (now_naive E) 2 = Inr s2"
      using ex [of 2] by auto
    obtain s3 where s3: "example_slot E (osr_duration req) (now_naive E) 3 = Inr s3"
      using ex [of 3] by auto
    obtain s4 where s4: "example_slot E (osr_duration req) (now_naive E) 4 = Inr s4"
      using ex [of 4] by auto
    have "?body = Inr [s0, s1, s2, s3, s4]"
      by (simp add: s0 s1 s2 s3 s4 ebind_Inr)
    then show ?thesis by (simp add: find_optimal_slots_def)
  qed
  from a b hour_slot_start [of E i] show ?thesis by (intro conjI impI) (simp_all only:)
qed

theorem optimal_slots_nine_hours_after_now_witness:
  "hour (now_naive fixture_env) = 14 \<and>
   slot_start_of fixture_env 0 = mk_datetime 2024 1 2 23 30 None \<and>
   hour (slot_start_of fixture_env 0) = 23 \<and>
   (\<exists>r. find_optimal_slots fixture_env hour_request = Inr r \<and>
      os_start_time (optimal_slots r ! 0) = ''2024-01-02T23:30:00'' \<and>
      map ai_score (optimal_slots r) = [10, 9, 8, 7, 6])"
proof -
  note t = optimal_slots_nine_hours_after_now [of fixture_env hour_request 0]
  have h0: "hour (slot_start_of fixture_env 0) = 23"
    using t [THEN conjunct2, THEN conjunct2] by (simp add: fixture_now_hour)
  have bounds: "min_wall \<le> wall (now_naive fixture_env) \<and> 0 \<le> osr_duration hour_request \<and>
    timedelta_ok (osr_duration hour_request * 60000000) \<and>
    wall (now_naive fixture_env) + timedelta_of 5 9 0 + osr_duration hour_request * 60000000
      \<le> max_wall"
    by (simp add: fixture_now_wall hour_request_def min_wall_def max_wall_def timedelta_ok_def
        timedelta_of_def)
  from t [THEN conjunct2, THEN conjunct1, rule_format, OF bounds]
  obtain r where r: "find_optimal_slots fixture_env hour_request = Inr r" by blast
  with t [THEN conjunct1] have
    m: "map os_start_time (optimal_slots r)
         = map (\<lambda>i. isoformat fixture_env (slot_start_of fixture_env i)) [0, 1, 2, 3, 4]"
    and l: "length (optimal_slots r) = 5"
    and sc: "map ai_score (optimal_slots r) = [10, 9, 8, 7, 6]"
    by auto
  have "os_start_time (optimal_slots r ! 0) = map os_start_time (optimal_slots r) ! 0"
    using l by simp
  also have "\<dots> = ''2024-01-02T23:30:00''"
    unfolding m by (simp add: fixture_first_slot fixture_first_slot_text)
  finally have st: "os_start_time (optimal_slots r ! 0) = ''2024-01-02T23:30:00''" .
  have "\<exists>r. find_optimal_slots fixture_env hour_request = Inr r \<and>
      os_start_time (optimal_slots r ! 0) = ''2024-01-02T23:30:00'' \<and>
      map ai_score (optimal_slots r) = [10, 9, 8, 7, 6]"
    by (rule exI [of _ r]) (simp only: r st sc simp_thms)
  with fixture_now_hour fixture_first_slot h0 show ?thesis
    by (intro conjI)
qed

subsection \<open>Conflicts in a range\<close>


























subsection \<open>Available slots\<close>












lemma shift_mk:
  "shift (mk_datetime y mo d h mi tz) (timedelta_of 0 a b) = mk_datetime y mo d (h + a) (mi + b) tz"
  by (simp add: shift_def mk_datetime_def timedelta_of_def algebra_simps)











subsection \<open>Busy intervals of the slot finder\<close>






end
